theory Spec2Isabelle
  imports Main
begin

section \<open>Python values and the exceptions of the overlay engine\<close>

text \<open>
  The static balance files are read with \<open>orjson.loads\<close>: a unit's metadata block is a
  dict from strings to JSON values, and a per-level block is again a dict. A dict is kept
  as an association list in file order (Python dicts iterate in insertion order); a
  lookup takes the first binding of a key, and the dicts of a parsed file bind each key
  once. Numbers are the integers the level and town-hall fields hold; floating-point
  numbers are outside this embedding.
\<close>

datatype json =
    JNull
  | JBool bool
  | JInt int
  | JStr string
  | JArr "json list"
  | JObj "(string \<times> json) list"

type_synonym dict = "(string \<times> json) list"

text \<open>
  The exceptions the modelled code raises. \<open>Unmodelled\<close> marks the two computations
  that are left out: \<open>str\<close> of a list or a dict (Python's \<open>repr\<close>), which the code would
  use as a key of the building table, and the name index asked for a key that is not a
  string.
\<close>

datatype error = AttributeError | KeyError | TypeError | ValueError | Unmodelled

definition bind_err :: "error + 'a \<Rightarrow> ('a \<Rightarrow> error + 'b) \<Rightarrow> error + 'b" where
  "bind_err m f = (case m of Inl e \<Rightarrow> Inl e | Inr x \<Rightarrow> f x)"

text \<open>A list comprehension whose element expression may raise: the first exception wins.\<close>

fun map_err :: "('a \<Rightarrow> error + 'b) \<Rightarrow> 'a list \<Rightarrow> error + 'b list" where
  "map_err f [] = Inr []"
| "map_err f (x # xs) =
     bind_err (f x) (\<lambda>y. bind_err (map_err f xs) (\<lambda>ys. Inr (y # ys)))"

text \<open>Truthiness, as \<open>not x\<close>, \<open>if x\<close> and \<open>any\<close> read it.\<close>

fun truthy :: "json \<Rightarrow> bool" where
  "truthy JNull = False"
| "truthy (JBool b) = b"
| "truthy (JInt n) = (n \<noteq> 0)"
| "truthy (JStr s) = (s \<noteq> [])"
| "truthy (JArr xs) = (xs \<noteq> [])"
| "truthy (JObj kvs) = (kvs \<noteq> [])"

text \<open>\<open>d.get(k)\<close> and \<open>d.get(k, default)\<close> on a dict.\<close>

definition py_get_default :: "dict \<Rightarrow> string \<Rightarrow> json \<Rightarrow> json" where
  "py_get_default d k dflt = (case map_of d k of None \<Rightarrow> dflt | Some v \<Rightarrow> v)"

definition py_get :: "dict \<Rightarrow> string \<Rightarrow> json" where
  "py_get d k = py_get_default d k JNull"

text \<open>
  \<open>x.get(k)\<close> on a value that need not be a dict: \<open>None\<close>, numbers, strings and lists
  have no attribute \<open>get\<close>.
\<close>

fun attr_get_default :: "json \<Rightarrow> string \<Rightarrow> json \<Rightarrow> error + json" where
  "attr_get_default (JObj d) k dflt = Inr (py_get_default d k dflt)"
| "attr_get_default _ k dflt = Inl AttributeError"

definition attr_get :: "json \<Rightarrow> string \<Rightarrow> error + json" where
  "attr_get x k = attr_get_default x k JNull"

text \<open>
  Booleans are integers in Python: \<open>True == 1\<close>, and \<open>max\<close> compares them with integers.
  Any other value compared with an integer by \<open>>\<close> raises TypeError.
\<close>

fun as_int :: "json \<Rightarrow> int option" where
  "as_int (JInt n) = Some n"
| "as_int (JBool b) = Some (if b then 1 else 0)"
| "as_int _ = None"

text \<open>\<open>th_level == x\<close> for an integer \<open>th_level\<close>.\<close>

definition py_eq_int :: "int \<Rightarrow> json \<Rightarrow> bool" where
  "py_eq_int n x = (as_int x = Some n)"

text \<open>
  \<open>max(lab_level, first_lab_level)\<close>: the second argument replaces the first only when it
  is strictly greater, so the first is returned as it is otherwise.
\<close>

definition py_max :: "json \<Rightarrow> int \<Rightarrow> error + json" where
  "py_max lab_level first_lab_level =
     (case as_int lab_level of
        None \<Rightarrow> Inl TypeError
      | Some n \<Rightarrow> Inr (if first_lab_level > n then JInt first_lab_level else lab_level))"

text \<open>\<open>str(x)\<close> for the values whose \<open>str\<close> is modelled.\<close>

definition digit_char :: "nat \<Rightarrow> char" where
  "digit_char d = ''0123456789'' ! d"

fun show_nat :: "nat \<Rightarrow> string" where
  "show_nat n = (if n < 10 then [digit_char n] else show_nat (n div 10) @ [digit_char (n mod 10)])"

definition show_int :: "int \<Rightarrow> string" where
  "show_int i = (if i < 0 then CHR ''-'' # show_nat (nat (- i)) else show_nat (nat i))"

fun py_str :: "json \<Rightarrow> error + string" where
  "py_str JNull = Inr ''None''"
| "py_str (JBool b) = Inr (if b then ''True'' else ''False'')"
| "py_str (JInt n) = Inr (show_int n)"
| "py_str (JStr s) = Inr s"
| "py_str (JArr xs) = Inl Unmodelled"
| "py_str (JObj kvs) = Inl Unmodelled"

text \<open>
  \<open>key.isnumeric()\<close> on the ASCII keys of the balance files: a non-empty string of
  decimal digits. \<open>sub in s\<close> for strings is the substring test.
\<close>

definition isnumeric :: "string \<Rightarrow> bool" where
  "isnumeric s = (s \<noteq> [] \<and> list_all (\<lambda>c. List.member ''0123456789'' c) s)"

fun starts_with :: "string \<Rightarrow> string \<Rightarrow> bool" where
  "starts_with [] s = True"
| "starts_with (c # cs) [] = False"
| "starts_with (c # cs) (d # ds) = (c = d \<and> starts_with cs ds)"

fun str_in :: "string \<Rightarrow> string \<Rightarrow> bool" where
  "str_in sub [] = (sub = [])"
| "str_in sub (d # ds) = (starts_with sub (d # ds) \<or> str_in sub ds)"

section \<open>StatSeries (UnitStat)\<close>

text \<open>
  Modelled from the spec: \<open>cr.utils.UnitStat\<close> and \<open>cr.miscmodels.try_enum\<close> are imported
  by \<open>abc.py\<close> and are not among the sources. The spec's StatSeries: \<open>from(values)\<close>
  constructs a series, and entries that are all undefined yield an absent series rather
  than a series of nulls; \<open>at(level)\<close> is 1-indexed, and a level outside
  \<open>[1, length]\<close> fails with OutOfRange. An absent series is \<open>None\<close>.
\<close>

datatype stat_error = AbsentError | OutOfRange

type_synonym unit_stat = "json list option"

definition try_enum_UnitStat :: "json list \<Rightarrow> unit_stat" where
  "try_enum_UnitStat vs = (if list_all (\<lambda>v. v = JNull) vs then None else Some vs)"

definition UnitStat_at :: "unit_stat \<Rightarrow> int \<Rightarrow> stat_error + json" where
  "UnitStat_at s level =
     (case s of
        None \<Rightarrow> Inl AbsentError
      | Some vs \<Rightarrow>
          if 1 \<le> level \<and> level \<le> int (length vs) then Inr (vs ! nat (level - 1))
          else Inl OutOfRange)"

section \<open>Names of the module that are not among the sources\<close>

text \<open>
  \<open>abc.py\<close> reads four things it does not define: the list \<open>PETS_ORDER\<close> and the enum
  \<open>Resource\<close> of \<open>cr.enums\<close>, the class \<open>TimeDelta\<close> of \<open>cr.miscmodels\<close>, and the parsed
  content of \<open>static/buildings.json\<close> (a mapping from production building to building
  level to a block with \<open>TownHallLevel\<close>). They are parameters of the model. The two
  constructors return the object they build, kept as an opaque value, or the exception
  they raise; \<open>TimeDelta\<close> takes the keyword it is called with.
\<close>

record externals =
  PETS_ORDER :: "string list"
  buildings :: dict
  Resource :: "json \<Rightarrow> error + json"
  TimeDelta :: "string \<Rightarrow> json \<Rightarrow> error + json"

section \<open>Unit templates: the class attributes \<open>_load_json_meta\<close> sets\<close>

text \<open>
  \<open>_load_json\<close> clones the holder's \<open>data_object\<close> class for every entry and
  \<open>_load_json_meta\<close> assigns the clone's class attributes. A template is the record of
  these attributes; an attribute that a call does not assign keeps the value the clone
  had.
\<close>

record template =
  cls_id :: int
  cls_name :: string
  cls_lab_to_townhall :: "(int \<times> int) list"
  cls_ground_target :: json
  cls_range :: unit_stat
  cls_dps :: unit_stat
  cls_hitpoints :: unit_stat
  cls_is_elixir_troop :: bool
  cls_is_dark_troop :: bool
  cls_is_siege_machine :: bool
  cls_is_elixir_spell :: bool
  cls_is_dark_spell :: bool
  cls_lab_level :: unit_stat
  cls_housing_space :: json
  cls_speed :: unit_stat
  cls_level :: unit_stat
  cls_upgrade_cost :: unit_stat
  cls_upgrade_resource :: json
  cls_upgrade_time :: unit_stat
  cls_is_home_village :: bool
  cls_village :: string
  cls_training_time :: json
  cls_ability_time :: unit_stat
  cls_ability_troop_count :: unit_stat
  cls_required_th_level :: unit_stat
  cls_regeneration_time :: unit_stat
  cls_is_loaded :: bool

subsection \<open>Per-level values\<close>

definition levels_available_of :: "dict \<Rightarrow> string list" where
  "levels_available_of json_meta = filter isnumeric (map fst json_meta)"

text \<open>\<open>[json_meta.get(level).get(field) for level in levels_available]\<close>\<close>

definition level_values :: "dict \<Rightarrow> string list \<Rightarrow> string \<Rightarrow> error + json list" where
  "level_values json_meta levels_available field =
     map_err (\<lambda>level. attr_get (py_get json_meta level) field) levels_available"

text \<open>\<open>[json_meta.get(level).get(field, dflt) for level in levels_available]\<close>\<close>

definition level_values_default ::
  "dict \<Rightarrow> string list \<Rightarrow> string \<Rightarrow> json \<Rightarrow> error + json list" where
  "level_values_default json_meta levels_available field dflt =
     map_err (\<lambda>level. attr_get_default (py_get json_meta level) field dflt) levels_available"

subsection \<open>The production building and the category flags (lines 155 to 167)\<close>

definition classify :: "externals \<Rightarrow> template \<Rightarrow> dict \<Rightarrow> string \<Rightarrow> template \<times> json" where
  "classify ext cls json_meta name =
     (let production_building = py_get json_meta ''ProductionBuilding'' in
      if production_building = JStr ''Barrack'' then
        (cls\<lparr>cls_is_elixir_troop := True\<rparr>, production_building)
      else if production_building = JStr ''Dark Elixir Barrack'' then
        (cls\<lparr>cls_is_dark_troop := True\<rparr>, production_building)
      else if production_building = JStr ''SiegeWorkshop'' then
        (cls\<lparr>cls_is_siege_machine := True\<rparr>, production_building)
      else if production_building = JStr ''Spell Forge'' then
        (cls\<lparr>cls_is_elixir_spell := True\<rparr>, production_building)
      else if production_building = JStr ''Mini Spell Factory'' then
        (cls\<lparr>cls_is_dark_spell := True\<rparr>, production_building)
      else if List.member (PETS_ORDER ext) name then
        (cls, JStr ''Pet Shop'')
      else (cls, production_building))"

subsection \<open>The production path resolver (lines 174 to 213)\<close>

definition barracks_family :: "string list" where
  "barracks_family =
     [''SiegeWorkshop'', ''Spell Forge'', ''Mini Spell Factory'',
      ''Dark Elixir Barrack'', ''Barrack'', ''Barrack2'']"

text \<open>
  \<open>buildings.get(production_building)\<close>: the keys of the table are strings, so a number
  finds nothing, and a list or a dict is unhashable.
\<close>

fun buildings_get :: "dict \<Rightarrow> json \<Rightarrow> error + json" where
  "buildings_get b (JStr s) = Inr (py_get b s)"
| "buildings_get b (JArr xs) = Inl TypeError"
| "buildings_get b (JObj kvs) = Inl TypeError"
| "buildings_get b _ = Inr JNull"

text \<open>\<open>production_building in ("SiegeWorkshop", ...)\<close>\<close>

fun in_barracks_family :: "json \<Rightarrow> bool" where
  "in_barracks_family (JStr s) = List.member barracks_family s"
| "in_barracks_family _ = False"

text \<open>\<open>prod_unit.get(str(min_prod_unit_level)).get("TownHallLevel", 0)\<close>\<close>

definition min_th_level_of :: "json \<Rightarrow> json \<Rightarrow> error + json" where
  "min_th_level_of prod_unit min_prod_unit_level =
     bind_err (py_str min_prod_unit_level) (\<lambda>key.
     bind_err (attr_get prod_unit key) (\<lambda>block.
     attr_get_default block ''TownHallLevel'' (JInt 0)))"

text \<open>
  \<open>[first_lab_level] = [lab_level for lab_level, th_level in lab_to_townhall.items()
  if th_level == min_th_level]\<close>: unpacking a list that has not exactly one element
  raises ValueError.
\<close>

definition reverse_matches :: "(int \<times> int) list \<Rightarrow> json \<Rightarrow> int list" where
  "reverse_matches lab_to_townhall min_th_level =
     map fst (filter (\<lambda>(lab_level, th_level). py_eq_int th_level min_th_level) lab_to_townhall)"

definition first_lab_level_of :: "(int \<times> int) list \<Rightarrow> json \<Rightarrow> error + int" where
  "first_lab_level_of lab_to_townhall min_th_level =
     (case reverse_matches lab_to_townhall min_th_level of
        [first_lab_level] \<Rightarrow> Inr first_lab_level
      | _ \<Rightarrow> Inl ValueError)"

text \<open>The floor of a unit: the town-hall level of its building level, mapped back to a
  laboratory level.\<close>

definition floor_level_of :: "(int \<times> int) list \<Rightarrow> json \<Rightarrow> json \<Rightarrow> error + int" where
  "floor_level_of lab_to_townhall prod_unit min_prod_unit_level =
     bind_err (min_th_level_of prod_unit min_prod_unit_level) (\<lambda>min_th_level.
     first_lab_level_of lab_to_townhall min_th_level)"

text \<open>The loop that appends \<open>max(lab_level, first_lab_level)\<close> for every raw value.\<close>

definition floored :: "int \<Rightarrow> json list \<Rightarrow> error + json list" where
  "floored first_lab_level raw = map_err (\<lambda>lab_level. py_max lab_level first_lab_level) raw"

text \<open>
  The list \<open>laboratory_levels\<close>, or \<open>None\<close> when the function returns at line 213 for a
  production building it does not know.
\<close>

definition laboratory_levels_of ::
  "externals \<Rightarrow> (int \<times> int) list \<Rightarrow> dict \<Rightarrow> json \<Rightarrow> string list \<Rightarrow> error + json list option" where
  "laboratory_levels_of ext lab_to_townhall json_meta production_building levels_available =
     (if \<not> truthy production_building then
        bind_err (level_values json_meta levels_available ''LaboratoryLevel'') (\<lambda>ls. Inr (Some ls))
      else
        bind_err (buildings_get (buildings ext) production_building) (\<lambda>prod_unit.
        if in_barracks_family production_building then
          (let min_prod_unit_level = py_get json_meta ''BarrackLevel'' in
           if \<not> truthy min_prod_unit_level then
             bind_err (level_values json_meta levels_available ''LaboratoryLevel'')
               (\<lambda>ls. Inr (Some ls))
           else
             bind_err (floor_level_of lab_to_townhall prod_unit min_prod_unit_level)
               (\<lambda>first_lab_level.
             bind_err (level_values_default json_meta levels_available ''LaboratoryLevel'' (JInt 1))
               (\<lambda>raw.
             bind_err (floored first_lab_level raw) (\<lambda>ls. Inr (Some ls)))))
        else if production_building = JStr ''Pet Shop'' then
          bind_err (attr_get (py_get json_meta ''1'') ''LaboratoryLevel'') (\<lambda>min_prod_unit_level.
          bind_err (floor_level_of lab_to_townhall prod_unit min_prod_unit_level)
            (\<lambda>first_lab_level.
          bind_err (level_values json_meta levels_available ''LaboratoryLevel'') (\<lambda>raw.
          bind_err (floored first_lab_level raw) (\<lambda>ls. Inr (Some ls)))))
        else Inr None))"

subsection \<open>The remaining attributes (lines 215 to 250)\<close>

text \<open>
  \<open>[TimeDelta(kw=json_meta.get(level, {}).get(field)) for level in levels_available
  if json_meta.get(level, {}).get(field) is not None]\<close>
\<close>

definition timedelta_values ::
  "externals \<Rightarrow> string \<Rightarrow> dict \<Rightarrow> string list \<Rightarrow> string \<Rightarrow> error + json list" where
  "timedelta_values ext kw json_meta levels_available field =
     bind_err
       (map_err (\<lambda>level.
          bind_err (attr_get (py_get_default json_meta level (JObj [])) field) (\<lambda>v.
          if v = JNull then Inr None
          else bind_err (TimeDelta ext kw v) (\<lambda>t. Inr (Some t))))
        levels_available)
       (\<lambda>os. Inr (List.map_filter (\<lambda>x. x) os))"

text \<open>\<open>cls.dps and UnitStat(range(1, len(cls.dps) + 1))\<close>\<close>

definition level_series :: "unit_stat \<Rightarrow> unit_stat" where
  "level_series dps =
     (case dps of
        None \<Rightarrow> None
      | Some d \<Rightarrow> Some (map (\<lambda>k. JInt (int k)) [1 ..< Suc (length d)]))"

definition finish_template ::
  "externals \<Rightarrow> template \<Rightarrow> dict \<Rightarrow> string list \<Rightarrow> json list \<Rightarrow> error + template" where
  "finish_template ext cls json_meta levels_available laboratory_levels =
     (let cls1 = cls\<lparr>cls_lab_level := try_enum_UnitStat laboratory_levels,
                      cls_housing_space := py_get_default json_meta ''HousingSpace'' (JInt 0)\<rparr> in
      bind_err (level_values json_meta levels_available ''Speed'') (\<lambda>speed.
      let cls2 = cls1\<lparr>cls_speed := try_enum_UnitStat speed,
                       cls_level := level_series (cls_dps cls1)\<rparr> in
      bind_err (level_values json_meta levels_available ''UpgradeCost'') (\<lambda>upgrade_cost.
      bind_err (Resource ext (py_get json_meta ''UpgradeResource'')) (\<lambda>upgrade_resource.
      bind_err (timedelta_values ext ''hours'' json_meta levels_available ''UpgradeTimeH'')
        (\<lambda>upgrade_times.
      let is_home_village = (if truthy (py_get json_meta ''VillageType'') then False else True);
          cls3 = cls2\<lparr>cls_upgrade_cost := try_enum_UnitStat upgrade_cost,
                       cls_upgrade_resource := upgrade_resource,
                       cls_upgrade_time := try_enum_UnitStat upgrade_times,
                       cls_is_home_village := is_home_village,
                       cls_village := (if is_home_village then ''home'' else ''builderBase'')\<rparr> in
      bind_err (TimeDelta ext ''seconds'' (py_get json_meta ''TrainingTime'')) (\<lambda>training_time.
      bind_err (level_values json_meta levels_available ''AbilityTime'') (\<lambda>ability_time.
      bind_err (level_values json_meta levels_available ''AbilitySummonTroopCount'')
        (\<lambda>ability_troop_count.
      bind_err (level_values json_meta levels_available ''RequiredTownHallLevel'')
        (\<lambda>required_townhall_levels.
      let cls4 = cls3\<lparr>cls_training_time := training_time,
                       cls_ability_time := try_enum_UnitStat ability_time,
                       cls_ability_troop_count := try_enum_UnitStat ability_troop_count,
                       cls_required_th_level :=
                         try_enum_UnitStat
                           (if list_ex truthy required_townhall_levels
                            then required_townhall_levels else laboratory_levels)\<rparr> in
      bind_err
        (timedelta_values ext ''minutes'' json_meta levels_available ''RegenerationTimeMinutes'')
        (\<lambda>regeneration_times.
      Inr (cls4\<lparr>cls_regeneration_time := try_enum_UnitStat regeneration_times,
                cls_is_loaded := True\<rparr>)))))))))))"

subsection \<open>\<open>DataContainer._load_json_meta\<close>\<close>

text \<open>
  The result is the clone after the call together with the value the call returns: the
  class itself (\<open>True\<close>) or, at the bare \<open>return\<close> of line 213, \<open>None\<close> (\<open>False\<close>). An
  exception leaves no result: the clone is local to the caller's loop and is lost.
\<close>

definition load_json_meta ::
  "externals \<Rightarrow> template \<Rightarrow> dict \<Rightarrow> int \<Rightarrow> string \<Rightarrow> (int \<times> int) list
     \<Rightarrow> error + (template \<times> bool)" where
  "load_json_meta ext cls json_meta ident name lab_to_townhall =
     (let cls1 = cls\<lparr>cls_id := ident, cls_name := name,
                      cls_lab_to_townhall := lab_to_townhall\<rparr>;
          levels_available = levels_available_of json_meta;
          cls2 = cls1\<lparr>cls_ground_target := py_get_default json_meta ''GroundTargets'' (JBool True)\<rparr>
      in
      bind_err (level_values json_meta levels_available ''AttackRange'') (\<lambda>attack_range.
      bind_err (level_values json_meta levels_available ''DPS'') (\<lambda>dps.
      bind_err (level_values json_meta levels_available ''Hitpoints'') (\<lambda>hitpoints.
      let cls3 = cls2\<lparr>cls_range := try_enum_UnitStat attack_range,
                       cls_dps := try_enum_UnitStat dps,
                       cls_hitpoints := try_enum_UnitStat hitpoints\<rparr>;
          (cls4, production_building) = classify ext cls3 json_meta name in
      bind_err
        (laboratory_levels_of ext lab_to_townhall json_meta production_building levels_available)
        (\<lambda>resolved.
      case resolved of
        None \<Rightarrow> Inr (cls4, False)
      | Some laboratory_levels \<Rightarrow>
          bind_err (finish_template ext cls4 json_meta levels_available laboratory_levels)
            (\<lambda>cls5. Inr (cls5, True)))))))"

section \<open>The registry: \<open>DataContainerHolder\<close>\<close>

text \<open>
  Modelled from the spec: \<open>cr.utils.CaseInsensitiveDict\<close> is not among the sources. The
  spec's name index is a normalized-key (lower-cased) mapping with latest-wins overwrite:
  a key is lower-cased when it is stored and when it is looked up. Names are ASCII
  strings here, and \<open>lower\<close> is \<open>str.lower\<close> on them.
\<close>

definition lower_char :: "char \<Rightarrow> char" where
  "lower_char c =
     (case map_of (zip ''ABCDEFGHIJKLMNOPQRSTUVWXYZ'' ''abcdefghijklmnopqrstuvwxyz'') c of
        None \<Rightarrow> c
      | Some l \<Rightarrow> l)"

definition lower :: "string \<Rightarrow> string" where
  "lower s = map lower_char s"

type_synonym 'v ci_dict = "string \<rightharpoonup> 'v"

definition ci_set :: "'v ci_dict \<Rightarrow> string \<Rightarrow> 'v \<Rightarrow> 'v ci_dict" where
  "ci_set m k v = m(lower k \<mapsto> v)"

definition ci_getitem :: "'v ci_dict \<Rightarrow> string \<Rightarrow> error + 'v" where
  "ci_getitem m k = (case m (lower k) of None \<Rightarrow> Inl KeyError | Some v \<Rightarrow> Inr v)"

text \<open>
  The holder: \<open>items\<close> (the ordered collection), \<open>item_lookup\<close> (the name index),
  \<open>loaded\<close>, and the two class attributes a concrete holder defines, \<open>FILE_PATH\<close> (as
  \<open>str\<close> gives it) and \<open>data_object\<close>.
\<close>

record holder =
  items :: "template list"
  item_lookup :: "template ci_dict"
  loaded :: bool
  FILE_PATH :: string
  data_object :: template

definition IGNORED_PETS :: "string list" where
  "IGNORED_PETS = [''Unused'', ''PhoenixEgg'']"

text \<open>\<open>english_aliases[meta.get("TID")]\<close>: the table maps text ids to display names.\<close>

fun aliases_getitem :: "(string \<times> string) list \<Rightarrow> json \<Rightarrow> error + string" where
  "aliases_getitem al (JStr s) = (case map_of al s of None \<Rightarrow> Inl KeyError | Some n \<Rightarrow> Inr n)"
| "aliases_getitem al (JArr xs) = Inl TypeError"
| "aliases_getitem al (JObj kvs) = Inl TypeError"
| "aliases_getitem al _ = Inl KeyError"

text \<open>
  One pass of the loop body of \<open>_load_json\<close> (lines 299 to 329): \<open>None\<close> when the entry
  is passed over with \<open>continue\<close>, the new class otherwise. The first thing the body
  does is \<open>meta.get("TID")\<close>, which raises AttributeError on a \<open>meta\<close> that is not a
  dict. The value \<open>_load_json_meta\<close> returns is not looked at.
\<close>

definition load_entry ::
  "externals \<Rightarrow> (string \<times> string) list \<Rightarrow> (int \<times> int) list \<Rightarrow> holder \<Rightarrow> int
     \<Rightarrow> string \<times> json \<Rightarrow> error + template option" where
  "load_entry ext english_aliases lab_to_townhall self ident entry =
     (case entry of
        (supercell_name, JObj meta) \<Rightarrow>
          if \<not> truthy (py_get meta ''TID'') then Inr None
          else if str_in ''Tutorial'' supercell_name then Inr None
          else if truthy (py_get meta ''DisableProduction'') \<and> \<not> str_in ''pets'' (FILE_PATH self)
          then Inr None
          else if truthy (py_get meta ''Deprecated'') then Inr None
          else if str_in ''pets'' (FILE_PATH self) \<and> List.member IGNORED_PETS supercell_name
          then Inr None
          else
            bind_err (aliases_getitem english_aliases (py_get meta ''TID'')) (\<lambda>name.
            bind_err (load_json_meta ext (data_object self) meta ident name lab_to_townhall)
              (\<lambda>(new_item, returned). Inr (Some new_item)))
      | (supercell_name, _) \<Rightarrow> Inl AttributeError)"

text \<open>
  The loop of \<open>_load_json\<close>: the holder as the loop leaves it, the next id, and the
  exception that ended the loop, if one did. The holder is mutated in place, so what was
  registered before an exception stays registered.
\<close>

fun load_loop ::
  "externals \<Rightarrow> (string \<times> string) list \<Rightarrow> (int \<times> int) list \<Rightarrow> holder \<Rightarrow> int
     \<Rightarrow> (string \<times> json) list \<Rightarrow> error option \<times> holder \<times> int" where
  "load_loop ext english_aliases lab_to_townhall self ident [] = (None, self, ident)"
| "load_loop ext english_aliases lab_to_townhall self ident (entry # rest) =
     (case load_entry ext english_aliases lab_to_townhall self ident entry of
        Inl e \<Rightarrow> (Some e, self, ident)
      | Inr None \<Rightarrow> load_loop ext english_aliases lab_to_townhall self ident rest
      | Inr (Some new_item) \<Rightarrow>
          load_loop ext english_aliases lab_to_townhall
            (self\<lparr>items := items self @ [new_item],
                  item_lookup := ci_set (item_lookup self) (cls_name new_item) new_item\<rparr>)
            (ident + 1) rest)"

text \<open>\<open>DataContainerHolder._load_json\<close>, on the parsed content \<open>data\<close> of the file.\<close>

definition load_json ::
  "externals \<Rightarrow> (string \<times> string) list \<Rightarrow> (int \<times> int) list \<Rightarrow> holder
     \<Rightarrow> (string \<times> json) list \<Rightarrow> error option \<times> holder" where
  "load_json ext english_aliases lab_to_townhall self data =
     (case load_loop ext english_aliases lab_to_townhall self 2000 data of
        (None, self', ident) \<Rightarrow> (None, self'\<lparr>loaded := True\<rparr>)
      | (Some e, self', ident) \<Rightarrow> (Some e, self'))"

text \<open>\<open>DataContainerHolder.get\<close>\<close>

definition get :: "holder \<Rightarrow> string \<Rightarrow> error + template option" where
  "get self name =
     (case ci_getitem (item_lookup self) name of
        Inl e \<Rightarrow> (if e = KeyError then Inr None else Inl e)
      | Inr item \<Rightarrow> Inr (Some item))"

section \<open>Unit instances: \<open>DataContainer\<close> objects\<close>

text \<open>
  A unit of a player response is a dict of scalar JSON values
  (\<open>name\<close>, \<open>level\<close>, \<open>maxLevel\<close>, \<open>village\<close>, \<open>superTroopIsActive\<close>).
\<close>

datatype pyval = PNone | PBool bool | PInt int | PStr string

type_synonym unit_data = "(string \<times> pyval) list"

text \<open>\<open>data[k]\<close> and \<open>data.get(k)\<close>\<close>

definition data_getitem :: "unit_data \<Rightarrow> string \<Rightarrow> error + pyval" where
  "data_getitem data k = (case map_of data k of None \<Rightarrow> Inl KeyError | Some v \<Rightarrow> Inr v)"

definition data_get :: "unit_data \<Rightarrow> string \<Rightarrow> pyval" where
  "data_get data k = (case map_of data k of None \<Rightarrow> PNone | Some v \<Rightarrow> v)"

text \<open>
  An instance: the class it was created from, the attributes \<open>__init__\<close> sets, and the
  four private copies (\<open>self.__name\<close> and so on) kept for the hash.
\<close>

record unit_instance =
  self_class :: template
  self_name :: pyval
  self_level :: pyval
  self_max_level :: pyval
  self_village :: pyval
  self_is_active :: pyval
  self_townhall :: int
  self_private_name :: pyval
  self_private_level :: pyval
  self_private_village :: pyval
  self_private_is_active :: pyval

text \<open>\<open>DataContainer.__init__\<close>, called as \<open>item(data=data, townhall=townhall)\<close>\<close>

definition DataContainer_init :: "template \<Rightarrow> unit_data \<Rightarrow> int \<Rightarrow> error + unit_instance" where
  "DataContainer_init item data townhall =
     bind_err (data_getitem data ''name'') (\<lambda>name.
     bind_err (data_getitem data ''level'') (\<lambda>level.
     bind_err (data_getitem data ''maxLevel'') (\<lambda>max_level.
     bind_err (data_getitem data ''village'') (\<lambda>village.
     let is_active = data_get data ''superTroopIsActive'' in
     bind_err (data_getitem data ''name'') (\<lambda>private_name.
     bind_err (data_getitem data ''level'') (\<lambda>private_level.
     bind_err (data_getitem data ''village'') (\<lambda>private_village.
     Inr \<lparr>self_class = item, self_name = name, self_level = level,
          self_max_level = max_level, self_village = village, self_is_active = is_active,
          self_townhall = townhall, self_private_name = private_name,
          self_private_level = private_level, self_private_village = private_village,
          self_private_is_active = data_get data ''superTroopIsActive''\<rparr>)))))))"

text \<open>\<open>==\<close> on scalars: a boolean equals the integer it is.\<close>

fun py_eq :: "pyval \<Rightarrow> pyval \<Rightarrow> bool" where
  "py_eq PNone PNone = True"
| "py_eq (PStr a) (PStr b) = (a = b)"
| "py_eq (PInt a) (PInt b) = (a = b)"
| "py_eq (PInt a) (PBool b) = (a = (if b then 1 else 0))"
| "py_eq (PBool a) (PInt b) = ((if a then 1 else 0) = b)"
| "py_eq (PBool a) (PBool b) = (a = b)"
| "py_eq _ _ = False"

text \<open>\<open>DataContainer.__eq__\<close>\<close>

definition DataContainer_eq :: "unit_instance \<Rightarrow> unit_instance \<Rightarrow> bool" where
  "DataContainer_eq self other =
     (py_eq (self_name self) (self_name other) \<and> py_eq (self_level self) (self_level other)
      \<and> py_eq (self_village self) (self_village other)
      \<and> py_eq (self_is_active self) (self_is_active other))"

text \<open>
  \<open>DataContainer.__hash__\<close>: the built-in \<open>hash\<close> of the tuple of the private copies.
  The built-in is a parameter: it is a function of the tuple's values, fixed for the
  run of the interpreter.
\<close>

definition DataContainer_hash :: "(pyval list \<Rightarrow> int) \<Rightarrow> unit_instance \<Rightarrow> int" where
  "DataContainer_hash builtin_hash self =
     builtin_hash [self_private_name self, self_private_level self,
                   self_private_village self, self_private_is_active self]"

text \<open>\<open>self.item_lookup[data["name"]]\<close>\<close>

definition lookup_data_name :: "holder \<Rightarrow> unit_data \<Rightarrow> error + template" where
  "lookup_data_name self data =
     bind_err (data_getitem data ''name'') (\<lambda>name.
     case name of
       PStr s \<Rightarrow> ci_getitem (item_lookup self) s
     | _ \<Rightarrow> Inl Unmodelled)"

text \<open>
  \<open>DataContainerHolder.load\<close>. \<open>default or self.data_object\<close>: a class is truthy, so a
  given default is taken.
\<close>

definition load ::
  "holder \<Rightarrow> unit_data \<Rightarrow> int \<Rightarrow> template option \<Rightarrow> bool \<Rightarrow> error + unit_instance" where
  "load self data townhall default_item load_game_data =
     bind_err
       (if load_game_data then
          (case lookup_data_name self data of
             Inl e \<Rightarrow>
               if e = KeyError
               then Inr (case default_item of None \<Rightarrow> data_object self | Some d \<Rightarrow> d)
               else Inl e
           | Inr item \<Rightarrow> Inr item)
        else Inr (case default_item of None \<Rightarrow> data_object self | Some d \<Rightarrow> d))
       (\<lambda>item. DataContainer_init item data townhall)"

section \<open>Example data\<close>

text \<open>
  A \<open>data_object\<close> class with no attribute set yet, a holder before any load, and the
  unit of the spec's scenario: a Knight of level 9 in the home village.
\<close>

definition blank_template :: template where
  "blank_template =
     \<lparr>cls_id = 0, cls_name = [], cls_lab_to_townhall = [], cls_ground_target = JNull,
      cls_range = None, cls_dps = None, cls_hitpoints = None, cls_is_elixir_troop = False,
      cls_is_dark_troop = False, cls_is_siege_machine = False, cls_is_elixir_spell = False,
      cls_is_dark_spell = False, cls_lab_level = None, cls_housing_space = JNull,
      cls_speed = None, cls_level = None, cls_upgrade_cost = None,
      cls_upgrade_resource = JNull, cls_upgrade_time = None, cls_is_home_village = False,
      cls_village = [], cls_training_time = JNull, cls_ability_time = None,
      cls_ability_troop_count = None, cls_required_th_level = None,
      cls_regeneration_time = None, cls_is_loaded = False\<rparr>"

definition empty_holder :: "string \<Rightarrow> template \<Rightarrow> holder" where
  "empty_holder path obj =
     \<lparr>items = [], item_lookup = Map.empty, loaded = False, FILE_PATH = path, data_object = obj\<rparr>"

definition knight_data :: unit_data where
  "knight_data =
     [(''name'', PStr ''Knight''), (''level'', PInt 9), (''maxLevel'', PInt 14),
      (''village'', PStr ''home''), (''superTroopIsActive'', PBool False)]"

definition knight_instance :: "template \<Rightarrow> int \<Rightarrow> unit_instance" where
  "knight_instance item th =
     \<lparr>self_class = item, self_name = PStr ''Knight'', self_level = PInt 9,
      self_max_level = PInt 14, self_village = PStr ''home'', self_is_active = PBool False,
      self_townhall = th, self_private_name = PStr ''Knight'', self_private_level = PInt 9,
      self_private_village = PStr ''home'', self_private_is_active = PBool False\<rparr>"

definition example_ext :: externals where
  "example_ext =
     \<lparr>PETS_ORDER = [''L.A.S.S.I''],
      buildings =
        [(''Barrack'', JObj [(''6'', JObj [(''TownHallLevel'', JInt 9)])]),
         (''Pet Shop'', JObj [(''9'', JObj [(''TownHallLevel'', JInt 13)])])],
      Resource = (\<lambda>v. Inr v),
      TimeDelta = (\<lambda>kw v. Inr v)\<rparr>"

definition example_lab_to_townhall :: "(int \<times> int) list" where
  "example_lab_to_townhall = [(5, 9), (7, 13)]"

text \<open>
  A unit entry with the given top-level fields and one level block per laboratory level,
  keyed \<open>"1"\<close>, \<open>"2"\<close>, and so on.
\<close>

definition unit_meta :: "dict \<Rightarrow> json list \<Rightarrow> dict" where
  "unit_meta kvs labs =
     kvs
     @ map (\<lambda>(k, l). (show_nat k, JObj [(''LaboratoryLevel'', l), (''DPS'', JInt 10)]))
         (zip [1 ..< Suc (length labs)] labs)"

definition troop_fields :: dict where
  "troop_fields =
     [(''TID'', JStr ''TID_TROOP''), (''ProductionBuilding'', JStr ''Barrack''),
      (''BarrackLevel'', JInt 6), (''UpgradeResource'', JStr ''Elixir'')]"

text \<open>
  Unit entries: the spec's barracks scenario (raw laboratory levels 3, 4, 4, 5, 5, 5 and
  \<open>BarrackLevel\<close> 6), a troop whose raw levels fall from 7 to 3, an entry with no
  production building, and a troop whose \<open>BarrackLevel\<close> is 0.
\<close>

definition floor_scenario_meta :: dict where
  "floor_scenario_meta = unit_meta troop_fields [JInt 3, JInt 4, JInt 4, JInt 5, JInt 5, JInt 5]"

definition dip_meta :: dict where
  "dip_meta = unit_meta troop_fields [JInt 7, JInt 3]"

definition plain_fields :: dict where
  "plain_fields = [(''TID'', JStr ''TID_UNIT''), (''UpgradeResource'', JStr ''DarkElixir'')]"

definition plain_meta :: dict where
  "plain_meta = unit_meta plain_fields [JInt 9, JInt 3]"

definition zero_barrack_meta :: dict where
  "zero_barrack_meta =
     unit_meta
       [(''TID'', JStr ''TID_TROOP''), (''ProductionBuilding'', JStr ''Barrack''),
        (''BarrackLevel'', JInt 0), (''UpgradeResource'', JStr ''Elixir'')]
       [JInt 3, JInt 1]"

section \<open>The quantities of the resolver by name\<close>

text \<open>
  The sub-expressions of \<open>_load_json_meta\<close> that the properties below speak of: the
  production building after the category chain (it does not depend on the class), the
  building level the floor is computed from, the floor, the raw per-level laboratory
  levels of the two flooring branches, and the condition under which a flooring branch
  is taken.
\<close>

definition resolved_building :: "externals \<Rightarrow> dict \<Rightarrow> string \<Rightarrow> json" where
  "resolved_building ext json_meta name = snd (classify ext blank_template json_meta name)"

definition min_prod_unit_level_of :: "dict \<Rightarrow> json \<Rightarrow> error + json" where
  "min_prod_unit_level_of json_meta production_building =
     (if production_building = JStr ''Pet Shop''
      then attr_get (py_get json_meta ''1'') ''LaboratoryLevel''
      else Inr (py_get json_meta ''BarrackLevel''))"

definition unit_floor :: "externals \<Rightarrow> (int \<times> int) list \<Rightarrow> dict \<Rightarrow> json \<Rightarrow> error + int" where
  "unit_floor ext lab_to_townhall json_meta production_building =
     bind_err (buildings_get (buildings ext) production_building) (\<lambda>prod_unit.
     bind_err (min_prod_unit_level_of json_meta production_building) (\<lambda>min_prod_unit_level.
     floor_level_of lab_to_townhall prod_unit min_prod_unit_level))"

definition raw_lab_levels :: "dict \<Rightarrow> json \<Rightarrow> string list \<Rightarrow> error + json list" where
  "raw_lab_levels json_meta production_building levels_available =
     (if production_building = JStr ''Pet Shop''
      then level_values json_meta levels_available ''LaboratoryLevel''
      else level_values_default json_meta levels_available ''LaboratoryLevel'' (JInt 1))"

definition on_floor_path :: "dict \<Rightarrow> json \<Rightarrow> bool" where
  "on_floor_path json_meta production_building =
     (in_barracks_family production_building \<and> truthy (py_get json_meta ''BarrackLevel'')
      \<or> production_building = JStr ''Pet Shop'')"

text \<open>The integer a number or a boolean is; \<open>0\<close> stands for the values that are neither.\<close>

definition int_of :: "json \<Rightarrow> int" where
  "int_of v = (case as_int v of None \<Rightarrow> 0 | Some n \<Rightarrow> n)"

text \<open>What a call of \<open>_load_json_meta\<close> leaves in two attributes of the class.\<close>

definition lab_level_of_result :: "error + template \<times> bool \<Rightarrow> error + unit_stat" where
  "lab_level_of_result r = map_sum id (\<lambda>p. cls_lab_level (fst p)) r"

definition required_th_level_of_result :: "error + template \<times> bool \<Rightarrow> error + unit_stat" where
  "required_th_level_of_result r = map_sum id (\<lambda>p. cls_required_th_level (fst p)) r"

text \<open>A metadata block without a key: the block as it would be were the field absent.\<close>

definition del_key :: "string \<Rightarrow> dict \<Rightarrow> dict" where
  "del_key k d = filter (\<lambda>kv. fst kv \<noteq> k) d"

section \<open>The quantities of the registry by name\<close>

text \<open>
  \<open>skipped\<close> is the condition under which the loop body of \<open>_load_json\<close> reaches one of
  its five \<open>continue\<close> statements: no \<open>TID\<close>, a tutorial variant, \<open>DisableProduction\<close>
  outside the pets file, \<open>Deprecated\<close>, or a name of the pet-exclusion list in the pets
  file. \<open>level_blocks_are_dicts\<close> says that every numeric key of a metadata block holds
  a dict. \<open>unit_min_th\<close> is the town-hall level the reverse lookup is asked for.
  \<open>registered\<close> is the holder after lines 331 and 332. \<open>index_agrees\<close> says that the
  name index holds exactly the lower-cased names of the ordered collection, each bound
  to a class of that name; a holder that has registered nothing satisfies it.
\<close>

definition skipped :: "string \<Rightarrow> string \<times> json \<Rightarrow> bool" where
  "skipped file_path entry =
     (case entry of
        (supercell_name, JObj meta) \<Rightarrow>
          \<not> truthy (py_get meta ''TID'')
          \<or> str_in ''Tutorial'' supercell_name
          \<or> (truthy (py_get meta ''DisableProduction'') \<and> \<not> str_in ''pets'' file_path)
          \<or> truthy (py_get meta ''Deprecated'')
          \<or> (str_in ''pets'' file_path \<and> List.member IGNORED_PETS supercell_name)
      | (supercell_name, _) \<Rightarrow> False)"

definition level_blocks_are_dicts :: "dict \<Rightarrow> bool" where
  "level_blocks_are_dicts json_meta =
     list_all (\<lambda>level. case py_get json_meta level of JObj d \<Rightarrow> True | _ \<Rightarrow> False)
       (levels_available_of json_meta)"

definition unit_min_th :: "externals \<Rightarrow> dict \<Rightarrow> json \<Rightarrow> error + json" where
  "unit_min_th ext json_meta production_building =
     bind_err (buildings_get (buildings ext) production_building) (\<lambda>prod_unit.
     bind_err (min_prod_unit_level_of json_meta production_building) (\<lambda>min_prod_unit_level.
     min_th_level_of prod_unit min_prod_unit_level))"

definition registered :: "holder \<Rightarrow> template \<Rightarrow> holder" where
  "registered self new_item =
     self\<lparr>items := items self @ [new_item],
          item_lookup := ci_set (item_lookup self) (cls_name new_item) new_item\<rparr>"

definition index_agrees :: "holder \<Rightarrow> bool" where
  "index_agrees self =
     ((\<forall>k t. item_lookup self k = Some t \<longrightarrow> lower (cls_name t) = k)
      \<and> dom (item_lookup self) = (\<lambda>t. lower (cls_name t)) ` set (items self))"

text \<open>
  A text-id table and entries of a troops file: the spec's barracks troop, a hero, an
  entry with a production building the code does not know, and a deprecated entry.
\<close>

definition example_aliases :: "(string \<times> string) list" where
  "example_aliases =
     [(''TID_TROOP'', ''Archer''), (''TID_UNIT'', ''Barbarian King''),
      (''TID_GOLEM'', ''Golem''), (''TID_OLD'', ''Old Troop'')]"

definition archer_entry :: "string \<times> json" where
  "archer_entry = (''Archer'', JObj floor_scenario_meta)"

definition king_entry :: "string \<times> json" where
  "king_entry = (''BarbarianKing'', JObj plain_meta)"

definition golem_meta :: dict where
  "golem_meta =
     unit_meta [(''TID'', JStr ''TID_GOLEM''), (''ProductionBuilding'', JStr ''Workshop9'')]
       [JInt 1]"

definition golem_entry :: "string \<times> json" where
  "golem_entry = (''Golem'', JObj golem_meta)"

definition old_entry :: "string \<times> json" where
  "old_entry =
     (''OldTroop'',
      JObj (unit_meta [(''TID'', JStr ''TID_OLD''), (''Deprecated'', JBool True)] [JInt 1]))"

definition troops_holder :: holder where
  "troops_holder = empty_holder ''static/troops.json'' blank_template"

section \<open>Basic facts\<close>

lemma bind_err_Inl [simp]: "bind_err (Inl e) f = Inl e"
  by (simp add: bind_err_def)

lemma bind_err_Inr [simp]: "bind_err (Inr x) f = f x"
  by (simp add: bind_err_def)

lemma bind_err_eq_Inr: "(bind_err m f = Inr y) = (\<exists>x. m = Inr x \<and> f x = Inr y)"
  by (cases m) simp_all

lemma map_err_Inr_iff:
  "(map_err f xs = Inr ys) = (length ys = length xs \<and> (\<forall>i < length xs. f (xs ! i) = Inr (ys ! i)))"
proof (induction xs arbitrary: ys)
  case Nil
  then show ?case by auto
next
  case (Cons x xs)
  show ?case
  proof (cases ys)
    case Nil
    then show ?thesis by (auto simp: bind_err_eq_Inr)
  next
    case (Cons y ys')
    then show ?thesis
      using Cons.IH [of ys']
      by (auto simp: bind_err_eq_Inr nth_Cons split: nat.splits)
  qed
qed

section \<open>The production path resolver\<close>

text \<open>The definitions a concrete run of the loader unfolds.\<close>

lemmas eval_defs = load_json_meta_def finish_template_def classify_def levels_available_of_def
  isnumeric_def timedelta_values_def level_series_def try_enum_UnitStat_def List.map_filter_def
  laboratory_levels_of_def example_ext_def example_lab_to_townhall_def unit_meta_def troop_fields_def
  level_values_def level_values_default_def floor_level_of_def min_th_level_of_def
  first_lab_level_of_def reverse_matches_def py_eq_int_def floored_def py_max_def py_get_def
  py_get_default_def attr_get_def barracks_family_def show_int_def digit_char_def upt_rec
  blank_template_def floor_scenario_meta_def dip_meta_def plain_fields_def plain_meta_def
  zero_barrack_meta_def resolved_building_def on_floor_path_def unit_floor_def
  min_prod_unit_level_of_def raw_lab_levels_def lab_level_of_result_def
  required_th_level_of_result_def del_key_def

lemma snd_classify: "snd (classify ext cls json_meta name) = resolved_building ext json_meta name"
  by (simp add: classify_def resolved_building_def Let_def)

lemma py_max_Inr:
  "py_max v f = Inr w \<Longrightarrow> \<exists>n. as_int v = Some n \<and> as_int w = Some (max n f)"
  by (auto simp: py_max_def split: option.splits if_splits)

lemma floored_props:
  assumes "floored f raws = Inr labs"
  shows "length labs = length raws"
    and "i < length raws \<Longrightarrow> \<exists>n. as_int (raws ! i) = Some n \<and> as_int (labs ! i) = Some (max n f)"
  using assms py_max_Inr by (auto simp: floored_def map_err_Inr_iff)

lemma floored_int_of:
  assumes "floored f raws = Inr labs" and "i < length raws"
  shows "int_of (labs ! i) = max (int_of (raws ! i)) f"
  using floored_props(2) [OF assms] by (auto simp: int_of_def)

lemma floored_sorted:
  assumes "floored f raws = Inr labs" and "sorted (map int_of raws)"
  shows "sorted (map int_of labs)"
proof -
  have len: "length labs = length raws" using assms(1) by (rule floored_props(1))
  show ?thesis
    unfolding sorted_iff_nth_mono
  proof (intro allI impI)
    fix i j assume ij: "i \<le> j" and j: "j < length (map int_of labs)"
    then have jr: "j < length raws" and ir: "i < length raws" using len by auto
    have "int_of (raws ! i) \<le> int_of (raws ! j)"
      using assms(2) ij jr ir by (auto simp: sorted_iff_nth_mono)
    then show "map int_of labs ! i \<le> map int_of labs ! j"
      using floored_int_of [OF assms(1) ir] floored_int_of [OF assms(1) jr] ir jr len
      by auto
  qed
qed

lemma UnitStat_at_try_enum:
  assumes "i < length vs" and "vs ! i \<noteq> JNull"
  shows "UnitStat_at (try_enum_UnitStat vs) (int i + 1) = Inr (vs ! i)"
proof -
  have "\<not> list_all (\<lambda>v. v = JNull) vs"
    using assms by (auto simp: list_all_length)
  then show ?thesis using assms(1) by (simp add: try_enum_UnitStat_def UnitStat_at_def)
qed

lemma lab_levels_floor_path:
  assumes "on_floor_path json_meta pb"
      and "laboratory_levels_of ext l2t json_meta pb levels = Inr res"
  shows "\<exists>floor raws labs. res = Some labs \<and> unit_floor ext l2t json_meta pb = Inr floor
     \<and> raw_lab_levels json_meta pb levels = Inr raws \<and> floored floor raws = Inr labs"
proof (cases "pb = JStr ''Pet Shop''")
  case True
  then show ?thesis
    using assms(2)
    by (auto simp: laboratory_levels_of_def unit_floor_def raw_lab_levels_def
        min_prod_unit_level_of_def barracks_family_def bind_err_eq_Inr)
next
  case False
  with assms(1) have fam: "in_barracks_family pb" and bl: "truthy (py_get json_meta ''BarrackLevel'')"
    by (auto simp: on_floor_path_def)
  from fam have tr: "truthy pb" by (cases pb) (auto simp: barracks_family_def)
  show ?thesis
    using assms(2) False fam bl tr
    by (auto simp: laboratory_levels_of_def unit_floor_def raw_lab_levels_def
        min_prod_unit_level_of_def bind_err_eq_Inr Let_def)
qed

lemma finish_template_props:
  assumes "finish_template ext cls json_meta levels labs = Inr t"
  shows "cls_lab_level t = try_enum_UnitStat labs"
    and "cls_name t = cls_name cls"
    and "cls_is_loaded t"
    and "\<exists>rtl. level_values json_meta levels ''RequiredTownHallLevel'' = Inr rtl
          \<and> cls_required_th_level t = try_enum_UnitStat (if list_ex truthy rtl then rtl else labs)"
  using assms
  by (auto simp: finish_template_def Let_def bind_err_eq_Inr)

lemma load_json_meta_resolved:
  assumes "load_json_meta ext cls json_meta ident name l2t = Inr (t, returned)"
  shows "\<exists>res. laboratory_levels_of ext l2t json_meta (resolved_building ext json_meta name)
            (levels_available_of json_meta) = Inr res
     \<and> (case res of
          None \<Rightarrow> \<not> returned
        | Some labs \<Rightarrow> returned \<and> (\<exists>cls4. finish_template ext cls4 json_meta (levels_available_of json_meta) labs = Inr t))"
  using assms
  by (auto simp: load_json_meta_def Let_def bind_err_eq_Inr case_prod_beta snd_classify
      split: option.splits)

lemma raw_lab_levels_length:
  "raw_lab_levels json_meta pb levels = Inr raws \<Longrightarrow> length raws = length levels"
  by (auto simp: raw_lab_levels_def level_values_def level_values_default_def map_err_Inr_iff
      split: if_splits)


lemma map_of_del_key: "map_of (del_key k0 d) k = (if k = k0 then None else map_of d k)"
  by (induction d) (auto simp: del_key_def)

lemma py_get_default_del_key:
  "k \<noteq> k0 \<Longrightarrow> py_get_default (del_key k0 d) k dflt = py_get_default d k dflt"
  by (simp add: py_get_default_def map_of_del_key)

lemma py_get_del_key: "k \<noteq> k0 \<Longrightarrow> py_get (del_key k0 d) k = py_get d k"
  by (simp add: py_get_def py_get_default_del_key)

lemma isnumeric_BarrackLevel: "\<not> isnumeric ''BarrackLevel''"
  by (simp add: isnumeric_def)

lemma levels_del_key:
  "\<not> isnumeric k0 \<Longrightarrow> levels_available_of (del_key k0 d) = levels_available_of d"
  by (induction d) (auto simp: levels_available_of_def del_key_def)

lemma map_err_cong_set: "(\<And>x. x \<in> set xs \<Longrightarrow> f x = g x) \<Longrightarrow> map_err f xs = map_err g xs"
  by (induction xs) auto

lemma levels_numeric: "k \<in> set (levels_available_of d) \<Longrightarrow> isnumeric k"
  by (auto simp: levels_available_of_def)

lemma py_get_default_del_level:
  assumes "\<not> isnumeric k0" and "x \<in> set (levels_available_of d)"
  shows "py_get_default (del_key k0 d) x dflt = py_get_default d x dflt"
proof -
  from assms levels_numeric have "x \<noteq> k0" by blast
  then show ?thesis by (rule py_get_default_del_key)
qed

lemma py_get_del_level:
  assumes "\<not> isnumeric k0" and "x \<in> set (levels_available_of d)"
  shows "py_get (del_key k0 d) x = py_get d x"
  using py_get_default_del_level [OF assms] by (simp add: py_get_def)

lemma level_values_del_key:
  assumes "\<not> isnumeric k0"
  shows "level_values (del_key k0 d) (levels_available_of d) f = level_values d (levels_available_of d) f"
  unfolding level_values_def
  by (rule map_err_cong_set) (simp add: py_get_del_level [OF assms])

lemma level_values_default_del_key:
  assumes "\<not> isnumeric k0"
  shows "level_values_default (del_key k0 d) (levels_available_of d) f x
       = level_values_default d (levels_available_of d) f x"
  unfolding level_values_default_def
  by (rule map_err_cong_set) (simp add: py_get_del_level [OF assms])

lemma timedelta_values_del_key:
  assumes "\<not> isnumeric k0"
  shows "timedelta_values ext kw (del_key k0 d) (levels_available_of d) f
       = timedelta_values ext kw d (levels_available_of d) f"
proof -
  have "map_err (\<lambda>level.
          bind_err (attr_get (py_get_default (del_key k0 d) level (JObj [])) f) (\<lambda>v.
          if v = JNull then Inr None else bind_err (TimeDelta ext kw v) (\<lambda>t. Inr (Some t))))
        (levels_available_of d)
      = map_err (\<lambda>level.
          bind_err (attr_get (py_get_default d level (JObj [])) f) (\<lambda>v.
          if v = JNull then Inr None else bind_err (TimeDelta ext kw v) (\<lambda>t. Inr (Some t))))
        (levels_available_of d)"
    by (rule map_err_cong_set) (simp add: py_get_default_del_level [OF assms])
  then show ?thesis by (simp add: timedelta_values_def)
qed

lemma finish_template_del_key:
  "finish_template ext cls (del_key ''BarrackLevel'' d) (levels_available_of d) labs
   = finish_template ext cls d (levels_available_of d) labs"
  by (simp add: finish_template_def level_values_del_key timedelta_values_del_key
      isnumeric_BarrackLevel py_get_del_key py_get_default_del_key)

lemma classify_del_key:
  "classify ext cls (del_key ''BarrackLevel'' d) name = classify ext cls d name"
  by (simp add: classify_def py_get_del_key)

lemma bind_err_Some: "bind_err m (\<lambda>ls. Inr (Some ls)) = map_sum id Some m"
  by (cases m) simp_all

lemma in_barracks_family_truthy: "in_barracks_family pb \<Longrightarrow> truthy pb"
  by (cases pb) (auto simp: barracks_family_def)

lemma in_barracks_family_get:
  "in_barracks_family pb \<Longrightarrow> \<exists>u. buildings_get b pb = Inr u"
  by (cases pb) auto

lemma lab_levels_falsy_barrack:
  assumes "in_barracks_family pb" and "\<not> truthy (py_get json_meta ''BarrackLevel'')"
  shows "laboratory_levels_of ext l2t json_meta pb levels
         = map_sum id Some (level_values json_meta levels ''LaboratoryLevel'')"
proof -
  from assms(1) obtain u where u: "buildings_get (buildings ext) pb = Inr u"
    using in_barracks_family_get by blast
  show ?thesis
    using assms u in_barracks_family_truthy [OF assms(1)]
    by (simp add: laboratory_levels_of_def bind_err_Some)
qed

lemma py_get_del_same: "py_get (del_key k d) k = JNull"
  by (simp add: py_get_def py_get_default_def map_of_del_key)


lemma truthy_not_null: "truthy v \<Longrightarrow> v \<noteq> JNull"
  by auto

lemma list_ex_truthy_try_enum: "list_ex truthy vs \<Longrightarrow> try_enum_UnitStat vs = Some vs"
  using truthy_not_null by (auto simp: try_enum_UnitStat_def list_ex_iff list_all_iff)


lemma resolved_building_hero:
  assumes "\<not> truthy (py_get json_meta ''ProductionBuilding'')"
      and "name \<notin> set (PETS_ORDER ext)"
  shows "resolved_building ext json_meta name = py_get json_meta ''ProductionBuilding''"
  using assms by (auto simp: resolved_building_def classify_def Let_def)


lemma floor_scenario_built:
  "\<exists>t. load_json_meta example_ext blank_template floor_scenario_meta 2000 ''Troop''
         example_lab_to_townhall = Inr (t, True)"
  by (simp add: eval_defs)

lemma floor_scenario_path:
  "on_floor_path floor_scenario_meta (resolved_building example_ext floor_scenario_meta ''Troop'')"
  by (simp add: eval_defs)


text \<open>
  Claim C1, as amended. For a unit that \<open>_load_json_meta\<close> resolves through a production
  building (barracks family with a truthy \<open>BarrackLevel\<close>, or pet shop) and for which
  the call returns: the floor and the raw per-level laboratory levels are computed, the
  raw values are numbers, and at every level \<open>i\<close> of the unit \<open>lab_level.at(i)\<close> is
  \<open>max(raw[i], floor)\<close>, hence at least the floor. The series is non-decreasing
  whenever the raw series is. (In the barracks branch a level block without
  \<open>LaboratoryLevel\<close> counts as raw level 1.)
\<close>

theorem lab_level_is_floored:
  assumes "load_json_meta ext cls json_meta ident name l2t = Inr (t, returned)"
      and "on_floor_path json_meta (resolved_building ext json_meta name)"
  shows "\<exists>floor raws labs.
       unit_floor ext l2t json_meta (resolved_building ext json_meta name) = Inr floor
     \<and> raw_lab_levels json_meta (resolved_building ext json_meta name)
          (levels_available_of json_meta) = Inr raws
     \<and> length labs = length (levels_available_of json_meta) \<and> length raws = length labs
     \<and> (\<forall>i < length labs.
           UnitStat_at (cls_lab_level t) (int i + 1) = Inr (labs ! i)
         \<and> as_int (raws ! i) \<noteq> None \<and> as_int (labs ! i) \<noteq> None
         \<and> int_of (labs ! i) = max (int_of (raws ! i)) floor
         \<and> floor \<le> int_of (labs ! i))
     \<and> (sorted (map int_of raws) \<longrightarrow> sorted (map int_of labs))"
proof -
  let ?pb = "resolved_building ext json_meta name"
  let ?lv = "levels_available_of json_meta"
  from load_json_meta_resolved [OF assms(1)] obtain res where
    res: "laboratory_levels_of ext l2t json_meta ?pb ?lv = Inr res"
    and fin: "case res of None \<Rightarrow> \<not> returned
        | Some labs \<Rightarrow> returned \<and> (\<exists>cls4. finish_template ext cls4 json_meta ?lv labs = Inr t)"
    by blast
  from lab_levels_floor_path [OF assms(2) res] obtain floor raws labs where
    some: "res = Some labs" and fl: "unit_floor ext l2t json_meta ?pb = Inr floor"
    and raw: "raw_lab_levels json_meta ?pb ?lv = Inr raws" and flo: "floored floor raws = Inr labs"
    by blast
  from fin some obtain cls4 where "finish_template ext cls4 json_meta ?lv labs = Inr t"
    by auto
  then have lab: "cls_lab_level t = try_enum_UnitStat labs"
    by (rule finish_template_props(1))
  have len: "length labs = length raws" using flo by (rule floored_props(1))
  have lenr: "length raws = length ?lv" using raw by (rule raw_lab_levels_length)
  have pt: "UnitStat_at (cls_lab_level t) (int i + 1) = Inr (labs ! i)
         \<and> as_int (raws ! i) \<noteq> None \<and> as_int (labs ! i) \<noteq> None
         \<and> int_of (labs ! i) = max (int_of (raws ! i)) floor
         \<and> floor \<le> int_of (labs ! i)" if i: "i < length labs" for i
  proof -
    from i len have ir: "i < length raws" by simp
    from floored_props(2) [OF flo ir] obtain n where
      n: "as_int (raws ! i) = Some n" "as_int (labs ! i) = Some (max n floor)" by blast
    from n(2) have nn: "labs ! i \<noteq> JNull" by auto
    show ?thesis
      using UnitStat_at_try_enum [OF i nn] n lab by (simp add: int_of_def)
  qed
  show ?thesis
    using fl raw len lenr pt floored_sorted [OF flo] by auto
qed


theorem lab_level_is_floored_witness:
  "on_floor_path floor_scenario_meta (resolved_building example_ext floor_scenario_meta ''Troop'')
   \<and> unit_floor example_ext example_lab_to_townhall floor_scenario_meta
        (resolved_building example_ext floor_scenario_meta ''Troop'') = Inr 5
   \<and> lab_level_of_result
        (load_json_meta example_ext blank_template floor_scenario_meta 2000 ''Troop''
           example_lab_to_townhall)
      = Inr (Some [JInt 5, JInt 5, JInt 5, JInt 5, JInt 5, JInt 5])
   \<and> (\<exists>t floor raws labs.
         load_json_meta example_ext blank_template floor_scenario_meta 2000 ''Troop''
           example_lab_to_townhall = Inr (t, True)
       \<and> unit_floor example_ext example_lab_to_townhall floor_scenario_meta
           (resolved_building example_ext floor_scenario_meta ''Troop'') = Inr floor
       \<and> raw_lab_levels floor_scenario_meta
           (resolved_building example_ext floor_scenario_meta ''Troop'')
           (levels_available_of floor_scenario_meta) = Inr raws
       \<and> length labs = length (levels_available_of floor_scenario_meta)
       \<and> length raws = length labs
       \<and> (\<forall>i < length labs.
             UnitStat_at (cls_lab_level t) (int i + 1) = Inr (labs ! i)
           \<and> as_int (raws ! i) \<noteq> None \<and> as_int (labs ! i) \<noteq> None
           \<and> int_of (labs ! i) = max (int_of (raws ! i)) floor
           \<and> floor \<le> int_of (labs ! i))
       \<and> (sorted (map int_of raws) \<longrightarrow> sorted (map int_of labs)))"
proof -
  from floor_scenario_built obtain t where
    t: "load_json_meta example_ext blank_template floor_scenario_meta 2000 ''Troop''
          example_lab_to_townhall = Inr (t, True)" by blast
  have fl: "unit_floor example_ext example_lab_to_townhall floor_scenario_meta
        (resolved_building example_ext floor_scenario_meta ''Troop'') = Inr 5"
    by (simp add: eval_defs)
  have lab: "lab_level_of_result
        (load_json_meta example_ext blank_template floor_scenario_meta 2000 ''Troop''
           example_lab_to_townhall)
      = Inr (Some [JInt 5, JInt 5, JInt 5, JInt 5, JInt 5, JInt 5])"
    by (simp add: eval_defs)
  show ?thesis
    using floor_scenario_path fl lab t lab_level_is_floored [OF t floor_scenario_path]
    by blast
qed


text \<open>
  Claim C1 as stated also says that the floored series is always non-decreasing. It is
  not: the code floors each value on its own and never compares neighbours. A barracks
  troop with \<open>BarrackLevel\<close> 6 (town hall 9, so floor 5) and raw levels 7 and 3 gets the
  series 7, 5.
\<close>

theorem lab_level_not_monotone_counterexample:
  "on_floor_path dip_meta (resolved_building example_ext dip_meta ''Troop'')
   \<and> unit_floor example_ext example_lab_to_townhall dip_meta
        (resolved_building example_ext dip_meta ''Troop'') = Inr 5
   \<and> lab_level_of_result
        (load_json_meta example_ext blank_template dip_meta 2000 ''Troop'' example_lab_to_townhall)
      = Inr (Some [JInt 7, JInt 5])
   \<and> UnitStat_at (Some [JInt 7, JInt 5]) 1 = Inr (JInt 7)
   \<and> UnitStat_at (Some [JInt 7, JInt 5]) 2 = Inr (JInt 5)
   \<and> \<not> int_of (JInt 7) \<le> int_of (JInt 5)"
  by (simp add: eval_defs UnitStat_at_def int_of_def)


text \<open>
  Claim C10. For a unit whose production building, as the resolver holds it after the
  category chain, is in the barracks family, and whose \<open>BarrackLevel\<close> is falsy
  (\<open>0\<close>, \<open>null\<close>, \<open>false\<close>, empty, or missing): the list of laboratory levels is the
  per-level \<open>LaboratoryLevel\<close> values as they are read, an expression in which neither
  the building table nor the laboratory to town-hall map occurs and no \<open>max\<close> is taken;
  and the whole call gives the result it gives on the same block without the
  \<open>BarrackLevel\<close> key.
\<close>

theorem falsy_barrack_level_reads_verbatim:
  assumes "in_barracks_family (resolved_building ext json_meta name)"
      and "\<not> truthy (py_get json_meta ''BarrackLevel'')"
  shows "laboratory_levels_of ext l2t json_meta (resolved_building ext json_meta name)
           (levels_available_of json_meta)
         = map_sum id Some (level_values json_meta (levels_available_of json_meta) ''LaboratoryLevel'')
       \<and> load_json_meta ext cls json_meta ident name l2t
         = load_json_meta ext cls (del_key ''BarrackLevel'' json_meta) ident name l2t"
proof -
  let ?pb = "resolved_building ext json_meta name"
  let ?lv = "levels_available_of json_meta"
  let ?m' = "del_key ''BarrackLevel'' json_meta"
  have a: "laboratory_levels_of ext l2t json_meta ?pb ?lv
         = map_sum id Some (level_values json_meta ?lv ''LaboratoryLevel'')"
    using assms by (rule lab_levels_falsy_barrack)
  have "laboratory_levels_of ext l2t ?m' ?pb ?lv
         = map_sum id Some (level_values ?m' ?lv ''LaboratoryLevel'')"
    using assms(1) by (rule lab_levels_falsy_barrack) (simp add: py_get_del_same)
  with a have same: "laboratory_levels_of ext l2t ?m' ?pb ?lv
         = laboratory_levels_of ext l2t json_meta ?pb ?lv"
    by (simp add: level_values_del_key isnumeric_BarrackLevel)
  have pb: "\<And>c. snd (classify ext c json_meta name) = ?pb"
    by (rule snd_classify)
  have b: "load_json_meta ext cls json_meta ident name l2t
         = load_json_meta ext cls ?m' ident name l2t"
    by (simp add: load_json_meta_def Let_def case_prod_beta classify_del_key pb same
        levels_del_key level_values_del_key isnumeric_BarrackLevel finish_template_del_key
        py_get_default_del_key)
  from a b show ?thesis by simp
qed


theorem falsy_barrack_level_reads_verbatim_witness:
  "in_barracks_family (resolved_building example_ext zero_barrack_meta ''Troop'')
   \<and> \<not> truthy (py_get zero_barrack_meta ''BarrackLevel'')
   \<and> map_of zero_barrack_meta ''BarrackLevel'' = Some (JInt 0)
   \<and> laboratory_levels_of example_ext example_lab_to_townhall zero_barrack_meta
        (resolved_building example_ext zero_barrack_meta ''Troop'')
        (levels_available_of zero_barrack_meta)
      = Inr (Some [JInt 3, JInt 1])
   \<and> load_json_meta example_ext blank_template zero_barrack_meta 2000 ''Troop''
        example_lab_to_townhall
      = load_json_meta example_ext blank_template (del_key ''BarrackLevel'' zero_barrack_meta)
          2000 ''Troop'' example_lab_to_townhall"
proof -
  have a: "in_barracks_family (resolved_building example_ext zero_barrack_meta ''Troop'')"
    by (simp add: eval_defs)
  have b: "\<not> truthy (py_get zero_barrack_meta ''BarrackLevel'')"
    by (simp add: eval_defs)
  have c: "map_of zero_barrack_meta ''BarrackLevel'' = Some (JInt 0)"
    by (simp add: eval_defs)
  have d: "level_values zero_barrack_meta (levels_available_of zero_barrack_meta)
             ''LaboratoryLevel'' = Inr [JInt 3, JInt 1]"
    by (simp add: eval_defs)
  show ?thesis
    using a b c d
      falsy_barrack_level_reads_verbatim [OF a b, of example_lab_to_townhall blank_template 2000]
    by simp
qed


text \<open>
  Claim C4, as amended. For a unit entry whose \<open>ProductionBuilding\<close> is missing or
  falsy and whose display name is not in \<open>PETS_ORDER\<close>, a call that returns has
  returned the class, and \<open>lab_level\<close> is the series of the per-level
  \<open>LaboratoryLevel\<close> values as they are read: no floor is computed and no value is
  raised to one.
\<close>

theorem hero_lab_level_verbatim:
  assumes "\<not> truthy (py_get json_meta ''ProductionBuilding'')"
      and "name \<notin> set (PETS_ORDER ext)"
      and "load_json_meta ext cls json_meta ident name l2t = Inr (t, returned)"
  shows "laboratory_levels_of ext l2t json_meta (resolved_building ext json_meta name)
           (levels_available_of json_meta)
         = map_sum id Some (level_values json_meta (levels_available_of json_meta) ''LaboratoryLevel'')
       \<and> returned
       \<and> (\<exists>raws. level_values json_meta (levels_available_of json_meta) ''LaboratoryLevel'' = Inr raws
            \<and> cls_lab_level t = try_enum_UnitStat raws)"
proof -
  let ?pb = "resolved_building ext json_meta name"
  let ?lv = "levels_available_of json_meta"
  have nt: "\<not> truthy ?pb" using assms(1,2) by (simp add: resolved_building_hero)
  then have a: "laboratory_levels_of ext l2t json_meta ?pb ?lv
         = map_sum id Some (level_values json_meta ?lv ''LaboratoryLevel'')"
    by (simp add: laboratory_levels_of_def bind_err_Some)
  from load_json_meta_resolved [OF assms(3)] obtain res where
    res: "laboratory_levels_of ext l2t json_meta ?pb ?lv = Inr res"
    and fin: "case res of None \<Rightarrow> \<not> returned
        | Some labs \<Rightarrow> returned \<and> (\<exists>cls4. finish_template ext cls4 json_meta ?lv labs = Inr t)"
    by blast
  from res a obtain raws where raws: "level_values json_meta ?lv ''LaboratoryLevel'' = Inr raws"
    and some: "res = Some raws"
    by (cases "level_values json_meta ?lv ''LaboratoryLevel''") auto
  from fin some obtain cls4 where r: returned
    and f: "finish_template ext cls4 json_meta ?lv raws = Inr t" by auto
  show ?thesis
    using a r raws finish_template_props(1) [OF f] by simp
qed

theorem hero_lab_level_verbatim_witness:
  "\<not> truthy (py_get plain_meta ''ProductionBuilding'')
   \<and> ''Barbarian King'' \<notin> set (PETS_ORDER example_ext)
   \<and> lab_level_of_result
        (load_json_meta example_ext blank_template plain_meta 2000 ''Barbarian King''
           example_lab_to_townhall)
      = Inr (Some [JInt 9, JInt 3])
   \<and> (\<exists>t. load_json_meta example_ext blank_template plain_meta 2000 ''Barbarian King''
             example_lab_to_townhall = Inr (t, True)
        \<and> (\<exists>raws. level_values plain_meta (levels_available_of plain_meta) ''LaboratoryLevel''
                    = Inr raws
             \<and> cls_lab_level t = try_enum_UnitStat raws))"
proof -
  have a: "\<not> truthy (py_get plain_meta ''ProductionBuilding'')"
    by (simp add: eval_defs)
  have b: "''Barbarian King'' \<notin> set (PETS_ORDER example_ext)"
    by (simp add: eval_defs)
  have "\<exists>t. load_json_meta example_ext blank_template plain_meta 2000 ''Barbarian King''
         example_lab_to_townhall = Inr (t, True)"
    by (simp add: eval_defs)
  then obtain t where t: "load_json_meta example_ext blank_template plain_meta 2000
         ''Barbarian King'' example_lab_to_townhall = Inr (t, True)" by blast
  have l: "lab_level_of_result
        (load_json_meta example_ext blank_template plain_meta 2000 ''Barbarian King''
           example_lab_to_townhall)
      = Inr (Some [JInt 9, JInt 3])"
    by (simp add: eval_defs)
  show ?thesis
    using a b l t hero_lab_level_verbatim [OF a b t] by blast
qed


text \<open>
  Claim C4 as stated covers every entry without a production building. Line 166 sends
  such an entry to the pet shop branch when its name is in \<open>PETS_ORDER\<close>: with raw
  levels 9 and 3, pet shop level 9 at town hall 13 and laboratory level 7 at town hall
  13, the series is 9, 7 and not 9, 3.
\<close>

theorem pet_name_is_floored_counterexample:
  "py_get plain_meta ''ProductionBuilding'' = JNull
   \<and> level_values plain_meta (levels_available_of plain_meta) ''LaboratoryLevel''
      = Inr [JInt 9, JInt 3]
   \<and> lab_level_of_result
        (load_json_meta example_ext blank_template plain_meta 2000 ''L.A.S.S.I''
           example_lab_to_townhall)
      = Inr (Some [JInt 9, JInt 7])"
  by (simp add: eval_defs)


text \<open>
  Claim C6. For a template that \<open>_load_json_meta\<close> has built to the end (the call
  returns the class): when some level has a truthy \<open>RequiredTownHallLevel\<close> (present,
  and neither \<open>null\<close>, \<open>0\<close> nor empty), \<open>required_th_level\<close> is the series of the
  per-level \<open>RequiredTownHallLevel\<close> values as they are read; otherwise it is the
  \<open>lab_level\<close> series.
\<close>

theorem required_th_level_series:
  assumes "load_json_meta ext cls json_meta ident name l2t = Inr (t, True)"
  shows "\<exists>rtl. level_values json_meta (levels_available_of json_meta) ''RequiredTownHallLevel''
                = Inr rtl
     \<and> (if list_ex truthy rtl then cls_required_th_level t = Some rtl
         else cls_required_th_level t = cls_lab_level t)"
proof -
  let ?lv = "levels_available_of json_meta"
  from load_json_meta_resolved [OF assms] obtain res where
    fin: "case res of None \<Rightarrow> \<not> True
        | Some labs \<Rightarrow> True \<and> (\<exists>cls4. finish_template ext cls4 json_meta ?lv labs = Inr t)"
    by blast
  then obtain labs cls4 where f: "finish_template ext cls4 json_meta ?lv labs = Inr t"
    by (auto split: option.splits)
  from finish_template_props(4) [OF f] obtain rtl where
    rtl: "level_values json_meta ?lv ''RequiredTownHallLevel'' = Inr rtl"
    and req: "cls_required_th_level t = try_enum_UnitStat (if list_ex truthy rtl then rtl else labs)"
    by blast
  show ?thesis
    using rtl req finish_template_props(1) [OF f] by (auto simp: list_ex_truthy_try_enum)
qed


theorem required_th_level_series_witness:
  "required_th_level_of_result
     (load_json_meta example_ext blank_template floor_scenario_meta 2000 ''Troop''
        example_lab_to_townhall)
   = Inr (Some [JInt 5, JInt 5, JInt 5, JInt 5, JInt 5, JInt 5])
   \<and> (\<exists>t rtl. load_json_meta example_ext blank_template floor_scenario_meta 2000 ''Troop''
         example_lab_to_townhall = Inr (t, True)
       \<and> level_values floor_scenario_meta (levels_available_of floor_scenario_meta)
           ''RequiredTownHallLevel'' = Inr rtl
       \<and> (if list_ex truthy rtl then cls_required_th_level t = Some rtl
           else cls_required_th_level t = cls_lab_level t))"
proof -
  from floor_scenario_built obtain t where
    t: "load_json_meta example_ext blank_template floor_scenario_meta 2000 ''Troop''
          example_lab_to_townhall = Inr (t, True)" by blast
  have r: "required_th_level_of_result
     (load_json_meta example_ext blank_template floor_scenario_meta 2000 ''Troop''
        example_lab_to_townhall)
   = Inr (Some [JInt 5, JInt 5, JInt 5, JInt 5, JInt 5, JInt 5])"
    by (simp add: eval_defs)
  show ?thesis
    using r t required_th_level_series [OF t] by blast
qed

section \<open>Instances: materialize, equality and hash\<close>

lemma py_eq_refl: "py_eq x x"
  by (cases x) simp_all

lemma load_Inr_init:
  "load self data townhall default_item load_game_data = Inr inst
   \<Longrightarrow> \<exists>item. DataContainer_init item data townhall = Inr inst"
  by (auto simp: load_def bind_err_eq_Inr)

lemma init_private_copies:
  assumes "DataContainer_init item data townhall = Inr inst"
  shows "self_private_name inst = self_name inst \<and> self_private_level inst = self_level inst
     \<and> self_private_village inst = self_village inst
     \<and> self_private_is_active inst = self_is_active inst"
  using assms by (auto simp: DataContainer_init_def bind_err_eq_Inr Let_def)

lemma load_knight:
  "load (empty_holder p obj) knight_data th None True = Inr (knight_instance obj th)"
  by (simp add: load_def lookup_data_name_def data_getitem_def data_get_def knight_data_def
      ci_getitem_def empty_holder_def DataContainer_init_def knight_instance_def)

text \<open>
  Claim C8. A unit of a player response has the keys \<open>name\<close>, \<open>level\<close>, \<open>maxLevel\<close> and
  \<open>village\<close>. When its name is a string that the name index does not hold (\<open>get\<close>
  returns \<open>None\<close>), \<open>load\<close> raises nothing: it returns an instance of the fallback class
  the caller gave, or of the holder's \<open>data_object\<close> when none was given, and the
  instance carries the unit's name, level, max level, village and active flag
  (\<open>None\<close> when \<open>superTroopIsActive\<close> is missing).
\<close>

theorem materialize_unknown_name:
  assumes "map_of data ''name'' = Some (PStr n)"
      and "get self n = Inr None"
      and "map_of data ''level'' = Some lv"
      and "map_of data ''maxLevel'' = Some ml"
      and "map_of data ''village'' = Some v"
  shows "\<exists>inst. load self data townhall default_item True = Inr inst
     \<and> self_class inst = (case default_item of None \<Rightarrow> data_object self | Some d \<Rightarrow> d)
     \<and> self_name inst = PStr n \<and> self_level inst = lv \<and> self_max_level inst = ml
     \<and> self_village inst = v \<and> self_is_active inst = data_get data ''superTroopIsActive''"
proof -
  from assms(2) have miss: "ci_getitem (item_lookup self) n = Inl KeyError"
    by (auto simp: get_def ci_getitem_def split: option.splits)
  show ?thesis
    using assms(1,3,4,5) miss
    by (simp add: load_def lookup_data_name_def data_getitem_def DataContainer_init_def)
qed

theorem materialize_unknown_name_witness:
  "get (empty_holder ''troops.json'' blank_template) ''Knight'' = Inr None
   \<and> (\<exists>inst. load (empty_holder ''troops.json'' blank_template) knight_data 10
         (Some (blank_template\<lparr>cls_name := ''Unknown''\<rparr>)) True = Inr inst
       \<and> self_class inst = blank_template\<lparr>cls_name := ''Unknown''\<rparr>
       \<and> self_name inst = PStr ''Knight'' \<and> self_level inst = PInt 9
       \<and> self_max_level inst = PInt 14 \<and> self_village inst = PStr ''home''
       \<and> self_is_active inst = PBool False)"
proof -
  let ?h = "empty_holder ''troops.json'' blank_template"
  have g: "get ?h ''Knight'' = Inr None"
    by (simp add: get_def ci_getitem_def empty_holder_def)
  have k: "map_of knight_data ''name'' = Some (PStr ''Knight'')"
    "map_of knight_data ''level'' = Some (PInt 9)"
    "map_of knight_data ''maxLevel'' = Some (PInt 14)"
    "map_of knight_data ''village'' = Some (PStr ''home'')"
    by (simp_all add: knight_data_def)
  have a: "data_get knight_data ''superTroopIsActive'' = PBool False"
    by (simp add: data_get_def knight_data_def)
  show ?thesis
    using g a materialize_unknown_name [OF k(1) g k(2) k(3) k(4),
        of 10 "Some (blank_template\<lparr>cls_name := ''Unknown''\<rparr>)"]
    by simp
qed

text \<open>
  Claim C9. Two instances that \<open>load\<close> builds, from any two holders, fallback classes
  and town-hall levels, and whose name, level, village and active flag are the same
  values, compare equal with \<open>__eq__\<close> and have the same \<open>__hash__\<close>, whatever function
  of the tuple the interpreter's \<open>hash\<close> is.
\<close>

theorem instances_equal_and_hash_alike:
  assumes "load holder1 data1 townhall1 default1 game1 = Inr a"
      and "load holder2 data2 townhall2 default2 game2 = Inr b"
      and "self_name a = self_name b" and "self_level a = self_level b"
      and "self_village a = self_village b" and "self_is_active a = self_is_active b"
  shows "DataContainer_eq a b
     \<and> DataContainer_hash builtin_hash a = DataContainer_hash builtin_hash b"
proof -
  from assms(1) obtain i1 where a: "DataContainer_init i1 data1 townhall1 = Inr a"
    using load_Inr_init by blast
  from assms(2) obtain i2 where b: "DataContainer_init i2 data2 townhall2 = Inr b"
    using load_Inr_init by blast
  have "DataContainer_eq a b"
    using assms(3-6) by (simp add: DataContainer_eq_def py_eq_refl)
  moreover have "DataContainer_hash builtin_hash a = DataContainer_hash builtin_hash b"
    using init_private_copies [OF a] init_private_copies [OF b] assms(3-6)
    by (simp add: DataContainer_hash_def)
  ultimately show ?thesis by simp
qed

theorem instances_equal_and_hash_alike_witness:
  "load (empty_holder ''troops.json'' blank_template) knight_data 10 None True
     = Inr (knight_instance blank_template 10)
   \<and> load (empty_holder ''static/troops.json'' (blank_template\<lparr>cls_name := ''Troop''\<rparr>))
        knight_data 12 None True
     = Inr (knight_instance (blank_template\<lparr>cls_name := ''Troop''\<rparr>) 12)
   \<and> knight_instance blank_template 10
       \<noteq> knight_instance (blank_template\<lparr>cls_name := ''Troop''\<rparr>) 12
   \<and> DataContainer_eq (knight_instance blank_template 10)
        (knight_instance (blank_template\<lparr>cls_name := ''Troop''\<rparr>) 12)
   \<and> (\<forall>builtin_hash.
        DataContainer_hash builtin_hash (knight_instance blank_template 10)
        = DataContainer_hash builtin_hash
            (knight_instance (blank_template\<lparr>cls_name := ''Troop''\<rparr>) 12))"
proof -
  let ?a = "knight_instance blank_template 10"
  let ?b = "knight_instance (blank_template\<lparr>cls_name := ''Troop''\<rparr>) 12"
  have la: "load (empty_holder ''troops.json'' blank_template) knight_data 10 None True = Inr ?a"
    by (rule load_knight)
  have lb: "load (empty_holder ''static/troops.json'' (blank_template\<lparr>cls_name := ''Troop''\<rparr>))
              knight_data 12 None True = Inr ?b"
    by (rule load_knight)
  have same: "self_name ?a = self_name ?b" "self_level ?a = self_level ?b"
    "self_village ?a = self_village ?b" "self_is_active ?a = self_is_active ?b"
    by (simp_all add: knight_instance_def)
  have ne: "?a \<noteq> ?b" by (simp add: knight_instance_def)
  show ?thesis
    using la lb ne instances_equal_and_hash_alike [OF la lb same] by blast
qed

section \<open>The registry\<close>

lemmas eval_load = eval_defs load_json_def load_entry_def example_aliases_def archer_entry_def
  king_entry_def golem_meta_def golem_entry_def old_entry_def troops_holder_def empty_holder_def
  IGNORED_PETS_def ci_set_def get_def ci_getitem_def lower_def lower_char_def skipped_def
  level_blocks_are_dicts_def unit_min_th_def registered_def

lemma skipped_load_entry:
  "skipped (FILE_PATH self) e \<Longrightarrow> load_entry ext al l2t self ident e = Inr None"
  by (cases e; cases "snd e") (auto simp: skipped_def load_entry_def)

lemma load_loop_filter:
  "load_loop ext al l2t self ident (filter (\<lambda>e. \<not> skipped (FILE_PATH self) e) data)
   = load_loop ext al l2t self ident data"
proof (induction data arbitrary: self ident)
  case Nil
  then show ?case by simp
next
  case (Cons e data)
  show ?case
  proof (cases "skipped (FILE_PATH self) e")
    case True
    then show ?thesis using Cons.IH [of self ident] by (simp add: skipped_load_entry)
  next
    case False
    show ?thesis
    proof (cases "load_entry ext al l2t self ident e")
      case (Inl err)
      then show ?thesis using False by simp
    next
      case (Inr r)
      show ?thesis
      proof (cases r)
        case None
        then show ?thesis using False Inr Cons.IH [of self ident] by simp
      next
        case (Some new_item)
        let ?s = "self\<lparr>items := items self @ [new_item],
                  item_lookup := ci_set (item_lookup self) (cls_name new_item) new_item\<rparr>"
        have "FILE_PATH ?s = FILE_PATH self" by simp
        then show ?thesis using False Inr Some Cons.IH [of ?s "ident + 1"] by simp
      qed
    qed
  qed
qed

lemma index_agrees_registered:
  "index_agrees self \<Longrightarrow> index_agrees (registered self new_item)"
  by (auto simp: index_agrees_def registered_def ci_set_def)

lemma load_loop_Cons_registered:
  "load_loop ext al l2t self ident (entry # rest) =
     (case load_entry ext al l2t self ident entry of
        Inl e \<Rightarrow> (Some e, self, ident)
      | Inr None \<Rightarrow> load_loop ext al l2t self ident rest
      | Inr (Some new_item) \<Rightarrow> load_loop ext al l2t (registered self new_item) (ident + 1) rest)"
  by (simp add: registered_def split: sum.splits option.splits)

lemma registered_fixed [simp]:
  "FILE_PATH (registered self n) = FILE_PATH self"
  "data_object (registered self n) = data_object self"
  "loaded (registered self n) = loaded self"
  by (simp_all add: registered_def)

lemma load_loop_index_agrees:
  "index_agrees self \<Longrightarrow> load_loop ext al l2t self ident data = (r, self', ident')
   \<Longrightarrow> index_agrees self'"
proof (induction data arbitrary: self ident)
  case Nil
  then show ?case by simp
next
  case (Cons e data)
  show ?case
  proof (cases "load_entry ext al l2t self ident e")
    case (Inl err)
    then show ?thesis using Cons.prems by simp
  next
    case (Inr x)
    show ?thesis
    proof (cases x)
      case None
      then show ?thesis using Inr Cons by simp
    next
      case (Some new_item)
      have "load_loop ext al l2t (registered self new_item) (ident + 1) data = (r, self', ident')"
        using Cons.prems(2) Inr Some by (simp add: registered_def)
      then show ?thesis
        using Cons.IH index_agrees_registered [OF Cons.prems(1)] by blast
    qed
  qed
qed

lemma load_loop_fixed:
  "load_loop ext al l2t self ident data = (r, self', ident')
   \<Longrightarrow> FILE_PATH self' = FILE_PATH self \<and> data_object self' = data_object self
       \<and> loaded self' = loaded self"
proof (induction data arbitrary: self ident)
  case Nil
  then show ?case by simp
next
  case (Cons e data)
  show ?case
  proof (cases "load_entry ext al l2t self ident e")
    case (Inl err)
    then show ?thesis using Cons.prems by simp
  next
    case (Inr x)
    show ?thesis
    proof (cases x)
      case None
      then show ?thesis using Inr Cons by simp
    next
      case (Some new_item)
      have "load_loop ext al l2t (registered self new_item) (ident + 1) data = (r, self', ident')"
        using Cons.prems Inr Some by (simp add: registered_def)
      from Cons.IH [OF this] show ?thesis by simp
    qed
  qed
qed

lemma load_json_index_agrees:
  assumes "index_agrees self" and "load_json ext al l2t self data = (r, self')"
  shows "index_agrees self'"
proof -
  obtain r0 s0 i0 where l: "load_loop ext al l2t self 2000 data = (r0, s0, i0)"
    by (cases "load_loop ext al l2t self 2000 data") auto
  from load_loop_index_agrees [OF assms(1) l] have a: "index_agrees s0" .
  have "self' = s0 \<or> self' = s0\<lparr>loaded := True\<rparr>"
    using assms(2) l by (auto simp: load_json_def split: option.splits)
  moreover have "index_agrees (s0\<lparr>loaded := True\<rparr>)"
    using a by (simp add: index_agrees_def)
  ultimately show ?thesis using a by blast
qed

lemma map_err_total:
  "(\<And>x. x \<in> set xs \<Longrightarrow> \<exists>y. f x = Inr y) \<Longrightarrow> \<exists>ys. map_err f xs = Inr ys"
proof (induction xs)
  case Nil
  then show ?case by simp
next
  case (Cons x xs)
  from Cons.prems obtain y where y: "f x = Inr y" by auto
  from Cons obtain ys where "map_err f xs = Inr ys" by auto
  with y show ?case by simp
qed

lemma level_values_blocks:
  assumes "level_blocks_are_dicts json_meta"
  shows "\<exists>vs. level_values json_meta (levels_available_of json_meta) field = Inr vs"
  unfolding level_values_def
proof (rule map_err_total)
  fix level assume "level \<in> set (levels_available_of json_meta)"
  with assms obtain d where "py_get json_meta level = JObj d"
    by (cases "py_get json_meta level") (auto simp: level_blocks_are_dicts_def list_all_iff)
  then show "\<exists>y. attr_get (py_get json_meta level) field = Inr y"
    by (simp add: attr_get_def)
qed

lemma first_lab_level_of_ValueError:
  "length (reverse_matches l2t th) \<noteq> 1 \<Longrightarrow> first_lab_level_of l2t th = Inl ValueError"
  by (cases "reverse_matches l2t th"; cases "tl (reverse_matches l2t th)")
     (auto simp: first_lab_level_of_def)

lemma lab_levels_ValueError:
  assumes "on_floor_path json_meta pb"
      and "unit_min_th ext json_meta pb = Inr th"
      and "length (reverse_matches l2t th) \<noteq> 1"
  shows "laboratory_levels_of ext l2t json_meta pb levels = Inl ValueError"
proof (cases "pb = JStr ''Pet Shop''")
  case True
  then show ?thesis
    using assms(2) first_lab_level_of_ValueError [OF assms(3)]
    by (auto simp: laboratory_levels_of_def unit_min_th_def min_prod_unit_level_of_def
        floor_level_of_def barracks_family_def bind_err_eq_Inr)
next
  case False
  with assms(1) have fam: "in_barracks_family pb" and bl: "truthy (py_get json_meta ''BarrackLevel'')"
    by (auto simp: on_floor_path_def)
  from fam have tr: "truthy pb" by (rule in_barracks_family_truthy)
  show ?thesis
    using assms(2) first_lab_level_of_ValueError [OF assms(3)] False fam bl tr
    by (auto simp: laboratory_levels_of_def unit_min_th_def min_prod_unit_level_of_def
        floor_level_of_def bind_err_eq_Inr Let_def)
qed

lemma load_json_meta_ValueError:
  assumes "level_blocks_are_dicts json_meta"
      and "on_floor_path json_meta (resolved_building ext json_meta name)"
      and "unit_min_th ext json_meta (resolved_building ext json_meta name) = Inr th"
      and "length (reverse_matches l2t th) \<noteq> 1"
  shows "load_json_meta ext cls json_meta ident name l2t = Inl ValueError"
proof -
  let ?lv = "levels_available_of json_meta"
  from level_values_blocks [OF assms(1)] obtain a b c where
    "level_values json_meta ?lv ''AttackRange'' = Inr a"
    "level_values json_meta ?lv ''DPS'' = Inr b"
    "level_values json_meta ?lv ''Hitpoints'' = Inr c" by metis
  then show ?thesis
    using lab_levels_ValueError [OF assms(2,3,4), of ?lv]
    by (simp add: load_json_meta_def Let_def case_prod_beta snd_classify)
qed

lemma load_entry_not_skipped:
  assumes "\<not> skipped (FILE_PATH self) (supercell_name, JObj meta)"
  shows "load_entry ext al l2t self ident (supercell_name, JObj meta) =
           bind_err (aliases_getitem al (py_get meta ''TID'')) (\<lambda>name.
           bind_err (load_json_meta ext (data_object self) meta ident name l2t)
             (\<lambda>(new_item, returned). Inr (Some new_item)))"
  using assms by (auto simp: skipped_def load_entry_def)

lemma load_loop_append:
  "load_loop ext al l2t self ident (xs @ ys) =
     (case load_loop ext al l2t self ident xs of
        (None, s1, i1) \<Rightarrow> load_loop ext al l2t s1 i1 ys
      | (Some e, s1, i1) \<Rightarrow> (Some e, s1, i1))"
proof (induction xs arbitrary: self ident)
  case Nil
  then show ?case by simp
next
  case (Cons x xs)
  then show ?case by (simp split: sum.splits option.splits)
qed

text \<open>
  Claim C5. The state \<open>_load_json\<close> leaves, and the exception it ends with if any, are
  those of a load of the same data with the skipped entries removed: an entry whose
  metadata block lacks a \<open>TID\<close>, whose name contains \<open>Tutorial\<close>, that has
  \<open>DisableProduction\<close> in a file that is not the pets file, that is marked
  \<open>Deprecated\<close>, or that is named in the pet-exclusion list of the pets file, adds
  nothing to the ordered collection or the name index and uses up no id.
\<close>

theorem skipped_entries_leave_no_trace:
  "load_json ext al l2t self data
   = load_json ext al l2t self (filter (\<lambda>e. \<not> skipped (FILE_PATH self) e) data)"
  by (simp add: load_json_def load_loop_filter)

theorem skipped_entries_leave_no_trace_witness:
  "skipped (FILE_PATH troops_holder) old_entry
   \<and> \<not> skipped (FILE_PATH troops_holder) archer_entry
   \<and> load_json example_ext example_aliases example_lab_to_townhall troops_holder
        [old_entry, archer_entry]
      = load_json example_ext example_aliases example_lab_to_townhall troops_holder [archer_entry]
   \<and> map cls_name
        (items (snd (load_json example_ext example_aliases example_lab_to_townhall troops_holder
                       [old_entry, archer_entry])))
      = [''Archer'']
   \<and> get (snd (load_json example_ext example_aliases example_lab_to_townhall troops_holder
                  [old_entry, archer_entry])) ''Old Troop''
      = Inr None"
proof -
  have a: "skipped (FILE_PATH troops_holder) old_entry"
    by (simp add: eval_load)
  have b: "\<not> skipped (FILE_PATH troops_holder) archer_entry"
    by (simp add: eval_load)
  have c: "map cls_name
        (items (snd (load_json example_ext example_aliases example_lab_to_townhall troops_holder
                       [archer_entry])))
      = [''Archer'']"
    by (simp add: eval_load)
  have d: "get (snd (load_json example_ext example_aliases example_lab_to_townhall troops_holder
                  [archer_entry])) ''Old Troop''
      = Inr None"
    by (simp add: eval_load)
  show ?thesis
    using a b c d
      skipped_entries_leave_no_trace [of example_ext example_aliases example_lab_to_townhall
        troops_holder "[old_entry, archer_entry]"]
    by simp
qed

text \<open>
  Claim C7. After a load into a holder whose index agrees with its collection (any
  holder that has registered nothing does), whether the load ended or was cut short by
  an exception: for every class in the ordered collection, \<open>get\<close> of its name in any
  letter case returns a class whose name is case-insensitively the queried name; and
  \<open>get\<close> of a name that no class of the collection has, in any letter case, returns
  \<open>None\<close> and raises nothing.
\<close>

theorem get_by_name_round_trip:
  assumes "index_agrees self"
      and "load_json ext al l2t self data = (r, self')"
  shows "(\<forall>t \<in> set (items self'). \<forall>q. lower q = lower (cls_name t) \<longrightarrow>
            (\<exists>t'. get self' q = Inr (Some t') \<and> lower (cls_name t') = lower q))
       \<and> (\<forall>q. lower q \<notin> (\<lambda>t. lower (cls_name t)) ` set (items self') \<longrightarrow> get self' q = Inr None)"
proof -
  have a: "index_agrees self'" using assms by (rule load_json_index_agrees)
  have found: "\<exists>t'. get self' q = Inr (Some t') \<and> lower (cls_name t') = lower q"
    if "t \<in> set (items self')" and "lower q = lower (cls_name t)" for t q
  proof -
    from that a have "lower q \<in> dom (item_lookup self')"
      by (auto simp: index_agrees_def)
    then obtain t' where t': "item_lookup self' (lower q) = Some t'" by auto
    with a have "lower (cls_name t') = lower q" by (auto simp: index_agrees_def)
    with t' show ?thesis by (simp add: get_def ci_getitem_def)
  qed
  have missing: "get self' q = Inr None"
    if "lower q \<notin> (\<lambda>t. lower (cls_name t)) ` set (items self')" for q
  proof -
    from that a have "lower q \<notin> dom (item_lookup self')" by (simp add: index_agrees_def)
    then have "item_lookup self' (lower q) = None" by auto
    then show ?thesis by (simp add: get_def ci_getitem_def)
  qed
  from found missing show ?thesis by blast
qed

lemma index_agrees_empty: "index_agrees (empty_holder p obj)"
  by (simp add: index_agrees_def empty_holder_def)

theorem get_by_name_round_trip_witness:
  "index_agrees troops_holder
   \<and> map cls_name
        (items (snd (load_json example_ext example_aliases example_lab_to_townhall troops_holder
                       [archer_entry, king_entry])))
      = [''Archer'', ''Barbarian King'']
   \<and> (\<exists>t'. get (snd (load_json example_ext example_aliases example_lab_to_townhall troops_holder
                         [archer_entry, king_entry])) ''ARCHER'' = Inr (Some t')
          \<and> lower (cls_name t') = lower ''ARCHER'')
   \<and> get (snd (load_json example_ext example_aliases example_lab_to_townhall troops_holder
                  [archer_entry, king_entry])) ''Wizard'' = Inr None"
proof -
  define H where "H = snd (load_json example_ext example_aliases example_lab_to_townhall
      troops_holder [archer_entry, king_entry])"
  define R where "R = fst (load_json example_ext example_aliases example_lab_to_townhall
      troops_holder [archer_entry, king_entry])"
  have a: "index_agrees troops_holder"
    by (simp add: troops_holder_def index_agrees_empty)
  have l: "load_json example_ext example_aliases example_lab_to_townhall troops_holder
      [archer_entry, king_entry] = (R, H)"
    by (simp only: R_def H_def prod.collapse)
  have n: "map cls_name (items H) = [''Archer'', ''Barbarian King'']"
    unfolding H_def by (simp add: eval_load)
  have "set (map cls_name (items H)) = {''Archer'', ''Barbarian King''}"
    by (simp only: n list.set)
  then have names: "cls_name ` set (items H) = {''Archer'', ''Barbarian King''}"
    by (simp only: set_map)
  then have "''Archer'' \<in> cls_name ` set (items H)"
    by (simp only: insertI1)
  then obtain t where t: "t \<in> set (items H)" "cls_name t = ''Archer''"
    by (elim imageE) simp
  have lo: "lower ''ARCHER'' = lower (cls_name t)"
    by (simp only: t(2)) (simp add: lower_def lower_char_def)
  have im: "(\<lambda>t. lower (cls_name t)) ` set (items H) = lower ` (cls_name ` set (items H))"
    by (simp only: image_image)
  have wz: "lower ''Wizard'' \<notin> (\<lambda>t. lower (cls_name t)) ` set (items H)"
    by (simp only: im names) (simp add: lower_def lower_char_def)
  from get_by_name_round_trip [OF a l]
  have f: "\<forall>t \<in> set (items H). \<forall>q. lower q = lower (cls_name t) \<longrightarrow>
            (\<exists>t'. get H q = Inr (Some t') \<and> lower (cls_name t') = lower q)"
    and m: "\<forall>q. lower q \<notin> (\<lambda>t. lower (cls_name t)) ` set (items H) \<longrightarrow> get H q = Inr None"
    by (rule conjunct1, rule conjunct2)
  from f t(1) lo have r1: "\<exists>t'. get H ''ARCHER'' = Inr (Some t') \<and> lower (cls_name t') = lower ''ARCHER''"
    by blast
  from m wz have r2: "get H ''Wizard'' = Inr None"
    by blast
  from a n r1 r2 show ?thesis
    unfolding H_def by blast
qed

text \<open>
  Claim C2, as amended. When the reverse lookup of a unit (a unit that is not skipped,
  whose text id has a display name, whose level blocks are dicts and that is resolved
  through a production building) finds no laboratory level or more than one for the
  town-hall level it asks for, \<open>_load_json_meta\<close> raises ValueError and the exception
  ends \<open>_load_json\<close>: the entries before the unit stay registered, the unit and every
  later entry are not built, and \<open>loaded\<close> is left as it was.
\<close>

theorem ambiguous_unlock_aborts_load:
  assumes "load_loop ext al l2t self 2000 before = (None, self1, ident1)"
      and "\<not> skipped (FILE_PATH self) (supercell_name, JObj meta)"
      and "aliases_getitem al (py_get meta ''TID'') = Inr name"
      and "level_blocks_are_dicts meta"
      and "on_floor_path meta (resolved_building ext meta name)"
      and "unit_min_th ext meta (resolved_building ext meta name) = Inr min_th_level"
      and "length (reverse_matches l2t min_th_level) \<noteq> 1"
  shows "load_json_meta ext (data_object self) meta ident1 name l2t = Inl ValueError
     \<and> load_json ext al l2t self (before @ (supercell_name, JObj meta) # rest)
         = (Some ValueError, self1)
     \<and> loaded self1 = loaded self"
proof -
  from load_loop_fixed [OF assms(1)] have fx: "FILE_PATH self1 = FILE_PATH self"
    "data_object self1 = data_object self" "loaded self1 = loaded self" by simp_all
  have m: "load_json_meta ext (data_object self) meta ident1 name l2t = Inl ValueError"
    using assms(4-7) by (rule load_json_meta_ValueError)
  have "\<not> skipped (FILE_PATH self1) (supercell_name, JObj meta)" using assms(2) fx by simp
  from load_entry_not_skipped [OF this]
  have e: "load_entry ext al l2t self1 ident1 (supercell_name, JObj meta) = Inl ValueError"
    using assms(3) m fx by simp
  have "load_loop ext al l2t self 2000 (before @ (supercell_name, JObj meta) # rest)
        = (Some ValueError, self1, ident1)"
    using assms(1) e by (simp add: load_loop_append)
  then show ?thesis using m fx by (simp add: load_json_def)
qed

lemma king_loop_ok:
  "fst (load_loop example_ext example_aliases [(7, 13)] troops_holder 2000 [king_entry]) = None"
  by (simp add: eval_load)

theorem ambiguous_unlock_aborts_load_witness:
  "\<not> skipped (FILE_PATH troops_holder) (''Archer'', JObj floor_scenario_meta)
   \<and> aliases_getitem example_aliases (py_get floor_scenario_meta ''TID'') = Inr ''Archer''
   \<and> level_blocks_are_dicts floor_scenario_meta
   \<and> on_floor_path floor_scenario_meta
        (resolved_building example_ext floor_scenario_meta ''Archer'')
   \<and> unit_min_th example_ext floor_scenario_meta
        (resolved_building example_ext floor_scenario_meta ''Archer'') = Inr (JInt 9)
   \<and> length (reverse_matches [(7, 13)] (JInt 9)) \<noteq> 1
   \<and> load_json example_ext example_aliases [(7, 13)] troops_holder
        ([king_entry] @ (''Archer'', JObj floor_scenario_meta) # [golem_entry])
      = (Some ValueError,
         fst (snd (load_loop example_ext example_aliases [(7, 13)] troops_holder 2000 [king_entry])))
   \<and> map cls_name
        (items (fst (snd (load_loop example_ext example_aliases [(7, 13)] troops_holder 2000
                            [king_entry]))))
      = [''Barbarian King'']"
proof -
  obtain r s i where l: "load_loop example_ext example_aliases [(7, 13)] troops_holder 2000
      [king_entry] = (r, s, i)"
    by (cases "load_loop example_ext example_aliases [(7, 13)] troops_holder 2000 [king_entry]")
      auto
  with king_loop_ok have l': "load_loop example_ext example_aliases [(7, 13)] troops_holder 2000
      [king_entry] = (None, s, i)" by simp
  have a: "\<not> skipped (FILE_PATH troops_holder) (''Archer'', JObj floor_scenario_meta)"
    by (simp add: eval_load)
  have b: "aliases_getitem example_aliases (py_get floor_scenario_meta ''TID'') = Inr ''Archer''"
    by (simp add: eval_load)
  have c: "level_blocks_are_dicts floor_scenario_meta"
    by (simp add: eval_load)
  have d: "on_floor_path floor_scenario_meta
        (resolved_building example_ext floor_scenario_meta ''Archer'')"
    by (simp add: eval_load)
  have e: "unit_min_th example_ext floor_scenario_meta
        (resolved_building example_ext floor_scenario_meta ''Archer'') = Inr (JInt 9)"
    by (simp add: eval_load)
  have f: "length (reverse_matches [(7, 13)] (JInt 9)) \<noteq> 1"
    by (simp add: eval_load)
  have g: "map cls_name
        (items (fst (snd (load_loop example_ext example_aliases [(7, 13)] troops_holder 2000
                            [king_entry]))))
      = [''Barbarian King'']"
    by (simp add: eval_load)
  show ?thesis
    using a b c d e f g l' ambiguous_unlock_aborts_load [OF l' a b c d e f, of "[golem_entry]"]
    by simp
qed

text \<open>
  Claim C2 as stated says that the failure is confined to the one unit and that the
  other entries are still built. The loop has no handler: with a laboratory map in which
  no level leads to town hall 9, the barracks troop raises ValueError, the load returns
  with nothing registered, and the hero after it, which loads on its own, is never
  reached. The exception carries neither the unit name nor the town-hall level.
\<close>

theorem ambiguous_unlock_counterexample:
  "unit_min_th example_ext floor_scenario_meta
     (resolved_building example_ext floor_scenario_meta ''Archer'') = Inr (JInt 9)
   \<and> reverse_matches [(7, 13)] (JInt 9) = []
   \<and> load_json example_ext example_aliases [(7, 13)] troops_holder [archer_entry, king_entry]
      = (Some ValueError, troops_holder)
   \<and> items troops_holder = []
   \<and> fst (load_json example_ext example_aliases [(7, 13)] troops_holder [king_entry]) = None
   \<and> map cls_name
        (items (snd (load_json example_ext example_aliases [(7, 13)] troops_holder [king_entry])))
      = [''Barbarian King'']"
  by (simp add: eval_load)

text \<open>
  Claim C3, as amended. For an entry that is not skipped, whose text id has a display
  name that is not in \<open>PETS_ORDER\<close>, whose level blocks are dicts, and whose
  \<open>ProductionBuilding\<close> is a non-empty string that is neither in the barracks family nor
  \<open>Pet Shop\<close>: \<open>_load_json_meta\<close> returns \<open>None\<close> at line 213, having assigned the id,
  the name and the first attributes but neither \<open>lab_level\<close>, \<open>required_th_level\<close> nor
  \<open>is_loaded\<close>; the loader still appends the class to the ordered collection, binds
  its name in the index and goes on with the next id.
\<close>

theorem unknown_building_is_registered_unloaded:
  assumes "\<not> skipped (FILE_PATH self) (supercell_name, JObj meta)"
      and "aliases_getitem al (py_get meta ''TID'') = Inr name"
      and "level_blocks_are_dicts meta"
      and "py_get meta ''ProductionBuilding'' = JStr building"
      and "building \<noteq> []"
      and "building \<notin> set barracks_family"
      and "building \<noteq> ''Pet Shop''"
      and "name \<notin> set (PETS_ORDER ext)"
  shows "\<exists>new_item.
       load_json_meta ext (data_object self) meta ident name l2t = Inr (new_item, False)
     \<and> cls_name new_item = name \<and> cls_id new_item = ident
     \<and> cls_lab_level new_item = cls_lab_level (data_object self)
     \<and> cls_required_th_level new_item = cls_required_th_level (data_object self)
     \<and> cls_is_loaded new_item = cls_is_loaded (data_object self)
     \<and> load_loop ext al l2t self ident ((supercell_name, JObj meta) # rest)
         = load_loop ext al l2t (registered self new_item) (ident + 1) rest
     \<and> new_item \<in> set (items (registered self new_item))
     \<and> get (registered self new_item) name = Inr (Some new_item)"
proof -
  let ?lv = "levels_available_of meta"
  from level_values_blocks [OF assms(3)] obtain a b c where
    v: "level_values meta ?lv ''AttackRange'' = Inr a"
    "level_values meta ?lv ''DPS'' = Inr b"
    "level_values meta ?lv ''Hitpoints'' = Inr c" by metis
  let ?new = "(data_object self)\<lparr>cls_id := ident, cls_name := name, cls_lab_to_townhall := l2t,
      cls_ground_target := py_get_default meta ''GroundTargets'' (JBool True),
      cls_range := try_enum_UnitStat a, cls_dps := try_enum_UnitStat b,
      cls_hitpoints := try_enum_UnitStat c\<rparr>"
  have cl: "classify ext ?new meta name = (?new, JStr building)"
    using assms(4,6,7,8) by (auto simp: classify_def Let_def barracks_family_def)
  have lab: "laboratory_levels_of ext l2t meta (JStr building) ?lv = Inr None"
    using assms(5,6,7) by (simp add: laboratory_levels_of_def)
  have m: "load_json_meta ext (data_object self) meta ident name l2t = Inr (?new, False)"
    using v cl lab by (simp add: load_json_meta_def Let_def)
  have e: "load_entry ext al l2t self ident (supercell_name, JObj meta) = Inr (Some ?new)"
    using load_entry_not_skipped [OF assms(1)] assms(2) m by simp
  have l: "load_loop ext al l2t self ident ((supercell_name, JObj meta) # rest)
         = load_loop ext al l2t (registered self ?new) (ident + 1) rest"
    using e by (simp add: registered_def)
  have g: "get (registered self ?new) name = Inr (Some ?new)"
    by (simp add: get_def ci_getitem_def registered_def ci_set_def)
  have i: "?new \<in> set (items (registered self ?new))"
    by (simp add: registered_def)
  show ?thesis
    using m l g i by (intro exI [of _ ?new]) simp
qed

theorem unknown_building_is_registered_unloaded_witness:
  "\<not> skipped (FILE_PATH troops_holder) (''Golem'', JObj golem_meta)
   \<and> aliases_getitem example_aliases (py_get golem_meta ''TID'') = Inr ''Golem''
   \<and> level_blocks_are_dicts golem_meta
   \<and> py_get golem_meta ''ProductionBuilding'' = JStr ''Workshop9''
   \<and> ''Workshop9'' \<notin> set barracks_family
   \<and> ''Golem'' \<notin> set (PETS_ORDER example_ext)
   \<and> (\<exists>new_item.
         load_json_meta example_ext (data_object troops_holder) golem_meta 2000 ''Golem''
           example_lab_to_townhall = Inr (new_item, False)
       \<and> cls_name new_item = ''Golem'' \<and> cls_id new_item = 2000
       \<and> cls_is_loaded new_item = cls_is_loaded (data_object troops_holder)
       \<and> load_loop example_ext example_aliases example_lab_to_townhall troops_holder 2000
           ((''Golem'', JObj golem_meta) # [])
          = (None, registered troops_holder new_item, 2001)
       \<and> get (registered troops_holder new_item) ''Golem'' = Inr (Some new_item))"
proof -
  have a: "\<not> skipped (FILE_PATH troops_holder) (''Golem'', JObj golem_meta)"
    by (simp add: eval_load)
  have b: "aliases_getitem example_aliases (py_get golem_meta ''TID'') = Inr ''Golem''"
    by (simp add: eval_load)
  have c: "level_blocks_are_dicts golem_meta"
    by (simp add: eval_load)
  have d: "py_get golem_meta ''ProductionBuilding'' = JStr ''Workshop9''"
    by (simp add: eval_load)
  have e: "''Workshop9'' \<noteq> []" "''Workshop9'' \<notin> set barracks_family"
    "''Workshop9'' \<noteq> ''Pet Shop''" "''Golem'' \<notin> set (PETS_ORDER example_ext)"
    by (simp_all add: eval_load)
  show ?thesis
    using a b c d e
      unknown_building_is_registered_unloaded [OF a b c d e, of 2000 example_lab_to_townhall "[]"]
    by auto
qed

text \<open>
  Claim C3 as stated says that such an entry is not in the registry. \<open>_load_json\<close> does
  not look at what \<open>_load_json_meta\<close> returns: an entry with the production building
  \<open>Workshop9\<close> is in the ordered collection, and \<open>get\<close> finds it by name.
\<close>

theorem unknown_building_counterexample:
  "py_get golem_meta ''ProductionBuilding'' = JStr ''Workshop9''
   \<and> fst (load_json example_ext example_aliases example_lab_to_townhall troops_holder
            [golem_entry]) = None
   \<and> map cls_name
        (items (snd (load_json example_ext example_aliases example_lab_to_townhall troops_holder
                       [golem_entry])))
      = [''Golem'']
   \<and> map_sum id (map_option cls_name)
        (get (snd (load_json example_ext example_aliases example_lab_to_townhall troops_holder
                     [golem_entry])) ''Golem'')
      = Inr (Some ''Golem'')"
  by (simp add: eval_load)

end
